theory Spec2Isabelle
  imports Complex_Main "HOL-Library.Char_ord" "HOL-Library.List_Lexorder"
begin

section \<open>JavaScript strings and numbers\<close>

text \<open>
  A JavaScript string is modelled as a \<^typ>\<open>string\<close>, a list of 8-bit characters:
  the model covers ASCII text, on which the operations below are those of the language
  (\<^verbatim>\<open>toLowerCase\<close> folds the letters A to Z, the white space of \<^verbatim>\<open>trim\<close> and
  \<^verbatim>\<open>parseInt\<close> is tab, line feed, vertical tab, form feed, carriage return and
  space).
\<close>

definition toLowerChar :: "char \<Rightarrow> char" where
  "toLowerChar c =
     (case map_of (zip ''ABCDEFGHIJKLMNOPQRSTUVWXYZ'' ''abcdefghijklmnopqrstuvwxyz'') c of
        Some l \<Rightarrow> l
      | None \<Rightarrow> c)"

definition toLowerCase :: "string \<Rightarrow> string" where
  "toLowerCase s = map toLowerChar s"

definition isWhiteSpace :: "char \<Rightarrow> bool" where
  "isWhiteSpace c = (of_char c \<in> {9, 10, 11, 12, 13, 32::nat})"

definition trim :: "string \<Rightarrow> string" where
  "trim s = rev (dropWhile isWhiteSpace (rev (dropWhile isWhiteSpace s)))"

definition startsWith :: "string \<Rightarrow> string \<Rightarrow> bool" where
  "startsWith s p = (take (length p) s = p)"

definition endsWith :: "string \<Rightarrow> string \<Rightarrow> bool" where
  "endsWith s e = (length e \<le> length s \<and> drop (length s - length e) s = e)"

text \<open>\<^verbatim>\<open>s.includes(t)\<close>: \<open>t\<close> occurs in \<open>s\<close> as a substring.\<close>

fun includes_str :: "string \<Rightarrow> string \<Rightarrow> bool" where
  "includes_str [] t = (t = [])"
| "includes_str (c # cs) t = (startsWith (c # cs) t \<or> includes_str cs t)"

text \<open>\<^verbatim>\<open>s.replace(pat, rep)\<close> with a string pattern: the first occurrence only.\<close>

fun replaceFirst :: "string \<Rightarrow> string \<Rightarrow> string \<Rightarrow> string" where
  "replaceFirst pat rep [] = (if pat = [] then rep else [])"
| "replaceFirst pat rep (c # cs) =
     (if startsWith (c # cs) pat then rep @ drop (length pat) (c # cs)
      else c # replaceFirst pat rep cs)"

text \<open>\<^verbatim>\<open>s.split(sep).pop()\<close> for a one-character separator: what follows its last occurrence.\<close>

definition lastSegment :: "char \<Rightarrow> string \<Rightarrow> string" where
  "lastSegment sep s = rev (takeWhile (\<lambda>c. c \<noteq> sep) (rev s))"

definition isDigit :: "char \<Rightarrow> bool" where
  "isDigit c = (CHR ''0'' \<le> c \<and> c \<le> CHR ''9'')"

definition digitValue :: "char \<Rightarrow> int" where
  "digitValue c = int (of_char c) - 48"

definition digitsValue :: "string \<Rightarrow> int" where
  "digitsValue ds = foldl (\<lambda>a c. 10 * a + digitValue c) 0 ds"

text \<open>
  \<^verbatim>\<open>parseInt(s, 10)\<close> as the language defines it: leading white space is skipped, one
  sign is read, then the longest run of decimal digits; what follows the digits is
  ignored, and with no digit at all the result is \<^verbatim>\<open>NaN\<close>, here \<open>None\<close>. The result
  is an unbounded integer (the model leaves out the rounding of a double beyond \<open>2^53\<close>).
\<close>

definition parseInt :: "string \<Rightarrow> int option" where
  "parseInt s =
     (let S = dropWhile isWhiteSpace s;
          sign = (if S \<noteq> [] \<and> hd S = CHR ''-'' then - 1 else 1 :: int);
          S' = (if S \<noteq> [] \<and> (hd S = CHR ''+'' \<or> hd S = CHR ''-'') then tl S else S);
          Z = takeWhile isDigit S'
      in if Z = [] then None else Some (sign * digitsValue Z))"

text \<open>
  The numbers that a division of two integers followed by \<^verbatim>\<open>Math.ceil\<close> can give:
  an integer, \<^verbatim>\<open>Infinity\<close> (a positive number over zero) or \<^verbatim>\<open>NaN\<close> (zero over
  zero).
\<close>

datatype jsnum = Fin int | Infinity | NaN

text \<open>\<^verbatim>\<open>Math.ceil(a / b)\<close> for an integer \<open>a \<ge> 0\<close> and an integer \<open>b\<close>.\<close>

definition ceilDiv :: "int \<Rightarrow> int \<Rightarrow> jsnum" where
  "ceilDiv a b =
     (if b = 0 then (if a = 0 then NaN else Infinity)
      else Fin (- ((- a) div b)))"

text \<open>
  \<^verbatim>\<open>xs.slice(start, stop)\<close> with integer arguments: a negative index counts from the
  end, and both are clamped to the array.
\<close>

definition slice :: "'a list \<Rightarrow> int \<Rightarrow> int \<Rightarrow> 'a list" where
  "slice xs start stop =
     (let len = int (length xs);
          k = (if start < 0 then max (len + start) 0 else min start len);
          final = (if stop < 0 then max (len + stop) 0 else min stop len)
      in take (nat (final - k)) (drop (nat k) xs))"

text \<open>
  \<^verbatim>\<open>[...new Set(xs)]\<close>: the distinct values of \<open>xs\<close> in the order of their first
  occurrence.
\<close>

definition setValues :: "'a list \<Rightarrow> 'a list" where
  "setValues xs = foldl (\<lambda>acc x. if x \<in> set acc then acc else acc @ [x]) [] xs"

text \<open>What a \<^verbatim>\<open>throw\<close> carries.\<close>

datatype JsError = Error string | TypeError string

section \<open>Wallpaper catalog (src/lib/wallpaper-utils.ts)\<close>

text \<open>
  The interfaces of lines 1-56. The field \<^verbatim>\<open>_id\<close> is \<open>item_id\<close> here, and the
  fields \<^verbatim>\<open>top\<close> and \<^verbatim>\<open>bot\<close> of a Bing item are \<open>top'\<close> and \<open>bot'\<close>.
\<close>

record WallpaperItem =
  rawSrc :: string
  colors :: "string list"
  rate :: real
  like :: real
  item_id :: string
  imgId :: string
  dimensions :: string
  source :: string

record BingWallpaperItem =
  startdate :: string
  fullstartdate :: string
  enddate :: string
  url :: string
  urlbase :: string
  copyright :: string
  copyrightlink :: string
  title :: string
  quiz :: string
  wp :: bool
  hsh :: string
  drk :: real
  top' :: real
  bot' :: real
  hs :: "string list"

text \<open>
  \<^verbatim>\<open>WallpaperListResponse\<close> and \<^verbatim>\<open>BingWallpaperResponse\<close> share the fields
  \<open>code\<close>, \<open>data\<close> and \<open>message\<close>; the fields of the Bing \<open>data\<close> object carry the
  prefix \<open>bing\<close> to keep them apart from those of the list response.
\<close>

record 'a ApiResponse =
  code :: int
  data :: 'a
  message :: string

record WallpaperListData =
  list :: "WallpaperItem list"
  total :: nat
  page :: int
  totalPage :: jsnum

record BingWallpaperData =
  bingUrl :: string
  bingList :: "BingWallpaperItem list"
  bingTotal :: nat
  bingDate :: string

type_synonym WallpaperListResponse = "WallpaperListData ApiResponse"
type_synonym BingWallpaperResponse = "BingWallpaperData ApiResponse"

text \<open>
  The module variables of lines 58-66: the cached array (\<open>None\<close> for \<^verbatim>\<open>null\<close>) and
  the time of the fetch that filled it, in milliseconds.
\<close>

record CatalogCache =
  cachedData :: "WallpaperItem list option"
  lastCacheTime :: int

record BingCache =
  cachedBingData :: "BingWallpaperItem list option"
  lastBingCacheTime :: int

definition CACHE_DURATION :: int where
  "CACHE_DURATION = 5 * 60 * 1000"

definition BING_CACHE_DURATION :: int where
  "BING_CACHE_DURATION = 60 * 60 * 1000"

text \<open>
  What the outbound \<^verbatim>\<open>fetch\<close> would do if it were called: reject, or resolve to a
  response with a status and a body; the second component is what \<^verbatim>\<open>response.json()\<close>
  gives, \<open>None\<close> when it rejects.
\<close>

datatype 'a FetchOutcome = FetchRejected | FetchResponse nat "'a option"

definition responseOk :: "nat \<Rightarrow> bool" where
  "responseOk status = (200 \<le> status \<and> status \<le> 299)"

text \<open>
  \<^verbatim>\<open>loadWallpaperData\<close> (lines 71-96), with the clock reading, the outcome of the
  fetch and the module variables passed in. A cached array is truthy even when it is
  empty. Every failure inside the \<^verbatim>\<open>try\<close> is rethrown as the same error.
\<close>

definition loadWallpaperData ::
  "int \<Rightarrow> WallpaperItem list FetchOutcome \<Rightarrow> CatalogCache
     \<Rightarrow> (JsError + WallpaperItem list) \<times> CatalogCache" where
  "loadWallpaperData now fetched st =
     (if cachedData st \<noteq> None \<and> now - lastCacheTime st < CACHE_DURATION
      then (Inr (the (cachedData st)), st)
      else
        (case fetched of
           FetchRejected \<Rightarrow> (Inl (Error ''Failed to load wallpaper data''), st)
         | FetchResponse status body \<Rightarrow>
             if \<not> responseOk status
             then (Inl (Error ''Failed to load wallpaper data''), st)
             else
               (case body of
                  None \<Rightarrow> (Inl (Error ''Failed to load wallpaper data''), st)
                | Some d \<Rightarrow>
                    (Inr d, st\<lparr> cachedData := Some d, lastCacheTime := now \<rparr>))))"

text \<open>
  \<^verbatim>\<open>loadBingWallpaperData\<close> (lines 101-128). The body of the feed is an object
  whose field \<^verbatim>\<open>images\<close> may be absent: \<^verbatim>\<open>data.images || []\<close>.
\<close>

definition loadBingWallpaperData ::
  "int \<Rightarrow> BingWallpaperItem list option FetchOutcome \<Rightarrow> BingCache
     \<Rightarrow> (JsError + BingWallpaperItem list) \<times> BingCache" where
  "loadBingWallpaperData now fetched st =
     (if cachedBingData st \<noteq> None \<and> now - lastBingCacheTime st < BING_CACHE_DURATION
      then (Inr (the (cachedBingData st)), st)
      else
        (case fetched of
           FetchRejected \<Rightarrow> (Inl (Error ''Failed to load Bing wallpaper data''), st)
         | FetchResponse status body \<Rightarrow>
             if \<not> responseOk status
             then (Inl (Error ''Failed to load Bing wallpaper data''), st)
             else
               (case body of
                  None \<Rightarrow> (Inl (Error ''Failed to load Bing wallpaper data''), st)
                | Some d \<Rightarrow>
                    (let images = (case d of Some i \<Rightarrow> i | None \<Rightarrow> [])
                     in (Inr images,
                         st\<lparr> cachedBingData := Some images, lastBingCacheTime := now \<rparr>)))))"

text \<open>
  The filter of lines 146-151: applied when \<^verbatim>\<open>source\<close> is neither undefined nor
  empty nor blank; it keeps the items whose source, in lower case, contains the filter
  in lower case.
\<close>

definition filterBySource :: "string option \<Rightarrow> WallpaperItem list \<Rightarrow> WallpaperItem list" where
  "filterBySource src allData =
     (case src of
        None \<Rightarrow> allData
      | Some s \<Rightarrow>
          if s \<noteq> [] \<and> trim s \<noteq> []
          then filter (\<lambda>item. includes_str (toLowerCase (source item)) (toLowerCase s)) allData
          else allData)"

text \<open>\<^verbatim>\<open>page || '1'\<close>: the default stands in for an undefined and for an empty page.\<close>

definition pageOrDefault :: "string option \<Rightarrow> string" where
  "pageOrDefault pg = (case pg of None \<Rightarrow> ''1'' | Some s \<Rightarrow> if s = [] then ''1'' else s)"

definition emptyListResult :: "int \<Rightarrow> string \<Rightarrow> WallpaperListResponse" where
  "emptyListResult c msg =
     \<lparr> code = c, data = \<lparr> list = [], total = 0, page = 1, totalPage = Fin 0 \<rparr>,
       message = msg \<rparr>"

text \<open>
  \<^verbatim>\<open>getWallpaperList(page, source, pageSize)\<close> (lines 136-201). The page size is an
  integer (the route handler passes the result of \<^verbatim>\<open>parseInt\<close> or the default 20).
  The only statement of the \<^verbatim>\<open>try\<close> block that can throw is the load of the
  catalog; the \<^verbatim>\<open>catch\<close> turns it into the result with code 500.
\<close>

definition getWallpaperList ::
  "string option \<Rightarrow> string option \<Rightarrow> int \<Rightarrow> int \<Rightarrow> WallpaperItem list FetchOutcome
     \<Rightarrow> CatalogCache \<Rightarrow> WallpaperListResponse \<times> CatalogCache" where
  "getWallpaperList pg src pageSize now fetched st =
     (case loadWallpaperData now fetched st of
        (Inl err, st') \<Rightarrow> (emptyListResult 500 ''Internal server error'', st')
      | (Inr allData, st') \<Rightarrow>
          (let filteredData = filterBySource src allData in
           case parseInt (pageOrDefault pg) of
             None \<Rightarrow> (emptyListResult 400 ''Invalid page number'', st')
           | Some currentPage \<Rightarrow>
               if currentPage < 1 then (emptyListResult 400 ''Invalid page number'', st')
               else
                 (let total' = length filteredData;
                      totalPage' = ceilDiv (int total') pageSize;
                      startIndex = (currentPage - 1) * pageSize;
                      endIndex = startIndex + pageSize;
                      list' = slice filteredData startIndex endIndex
                  in (\<lparr> code = 200,
                         data = \<lparr> list = list', total = total', page = currentPage,
                                  totalPage = totalPage' \<rparr>,
                         message = ''Success'' \<rparr>, st'))))"

text \<open>
  \<^verbatim>\<open>getBingWallpaperList\<close> (lines 206-234). \<open>bingTryBlock\<close> is the \<^verbatim>\<open>try\<close> block:
  the load may throw, and so does \<^verbatim>\<open>bingData[0].url\<close> on an empty array, where
  \<^verbatim>\<open>bingData[0]\<close> is undefined. The \<^verbatim>\<open>catch\<close> block answers every throw with the
  result of code 500. \<open>isoNow\<close> is \<^verbatim>\<open>new Date().toISOString()\<close>.
\<close>

definition bingTryBlock ::
  "string \<Rightarrow> (JsError + BingWallpaperItem list) \<Rightarrow> JsError + BingWallpaperResponse" where
  "bingTryBlock isoNow loaded =
     (case loaded of
        Inl err \<Rightarrow> Inl err
      | Inr bingData \<Rightarrow>
          (case bingData of
             [] \<Rightarrow> Inl (TypeError ''Cannot read properties of undefined (reading url)'')
           | first # rest \<Rightarrow>
               Inr \<lparr> code = 200,
                     data = \<lparr> bingUrl = ''https://www.bing.com'' @ url first,
                              bingList = bingData, bingTotal = length bingData,
                              bingDate = isoNow \<rparr>,
                     message = ''Success'' \<rparr>))"

definition getBingWallpaperList ::
  "string \<Rightarrow> int \<Rightarrow> BingWallpaperItem list option FetchOutcome \<Rightarrow> BingCache
     \<Rightarrow> (JsError + BingWallpaperResponse) \<times> BingCache" where
  "getBingWallpaperList isoNow now fetched st =
     (case loadBingWallpaperData now fetched st of
        (loaded, st') \<Rightarrow>
          (case bingTryBlock isoNow loaded of
             Inr r \<Rightarrow> (Inr r, st')
           | Inl err \<Rightarrow>
               (Inr \<lparr> code = 500,
                      data = \<lparr> bingUrl = [], bingList = [], bingTotal = 0,
                               bingDate = isoNow \<rparr>,
                      message = ''Internal server error'' \<rparr>, st')))"

text \<open>
  \<^verbatim>\<open>getAvailableSources\<close> (lines 239-248). \<^verbatim>\<open>sort()\<close> without a comparison
  function orders strings by their code units, which is the lexicographic order of
  \<^typ>\<open>string\<close>.
\<close>

definition getAvailableSources ::
  "int \<Rightarrow> WallpaperItem list FetchOutcome \<Rightarrow> CatalogCache
     \<Rightarrow> (JsError + string list) \<times> CatalogCache" where
  "getAvailableSources now fetched st =
     (case loadWallpaperData now fetched st of
        (Inl err, st') \<Rightarrow> (Inr [], st')
      | (Inr allData, st') \<Rightarrow>
          (let sources = setValues (map source allData) in (Inr (sort sources), st')))"

text \<open>
  Data for the examples: an item that has a source only, a cache that was never filled,
  a catalog of 45 items of one source, the catalog with three spellings of two sources,
  and the result that the \<^verbatim>\<open>catch\<close> block of \<^verbatim>\<open>getBingWallpaperList\<close> returns.
\<close>

definition sourceOnlyItem :: "string \<Rightarrow> WallpaperItem" where
  "sourceOnlyItem s =
     \<lparr> rawSrc = [], colors = [], rate = 0, like = 0, item_id = [], imgId = [],
       dimensions = [], source = s \<rparr>"

definition coldCatalogCache :: CatalogCache where
  "coldCatalogCache = \<lparr> cachedData = None, lastCacheTime = 0 \<rparr>"

definition unsplash45 :: "WallpaperItem list" where
  "unsplash45 = replicate 45 (sourceOnlyItem ''Unsplash'')"

definition quirkCatalog :: "WallpaperItem list" where
  "quirkCatalog = [sourceOnlyItem ''Unsplash'', sourceOnlyItem ''unsplash'', sourceOnlyItem ''Pexels'']"

definition coldBingCache :: BingCache where
  "coldBingCache = \<lparr> cachedBingData = None, lastBingCacheTime = 0 \<rparr>"

definition bingFailure :: "string \<Rightarrow> BingWallpaperResponse" where
  "bingFailure isoNow =
     \<lparr> code = 500,
       data = \<lparr> bingUrl = [], bingList = [], bingTotal = 0, bingDate = isoNow \<rparr>,
       message = ''Internal server error'' \<rparr>"

section \<open>Proxy statistics store (src/api/v1/index.ts, lines 255-310)\<close>

text \<open>
  The interface \<^verbatim>\<open>ProxyStats\<close>. The four counters are JavaScript numbers that start at
  zero and are only ever incremented, so they are natural numbers here (the model leaves
  out the loss of precision of a double beyond \<open>2^53\<close>). The running mean is a real
  number and the time stamp is the ISO string that \<^verbatim>\<open>new Date().toISOString()\<close>
  returns, passed in as a parameter.
\<close>

record ProxyStats =
  totalRequests :: nat
  successfulRequests :: nat
  failedRequests :: nat
  cacheHits :: nat
  averageResponseTime :: real
  lastRequestTime :: string

text \<open>The initial value of the module variable \<^verbatim>\<open>proxyStats\<close> (lines 266-273).\<close>

definition initialProxyStats :: "string \<Rightarrow> ProxyStats" where
  "initialProxyStats now =
     \<lparr> totalRequests = 0, successfulRequests = 0, failedRequests = 0, cacheHits = 0,
       averageResponseTime = 0, lastRequestTime = now \<rparr>"

text \<open>
  \<^verbatim>\<open>updateProxyStats(success, responseTime, fromCache = false)\<close> (lines 276-293), with
  the module variable passed in and returned. The statements are kept in the order of the
  source: the mean is computed from the total that has already been incremented.
\<close>

definition updateProxyStats :: "bool \<Rightarrow> int \<Rightarrow> bool \<Rightarrow> string \<Rightarrow> ProxyStats \<Rightarrow> ProxyStats" where
  "updateProxyStats success responseTime fromCache now s =
     (let s1 = s\<lparr> totalRequests := totalRequests s + 1 \<rparr>;
          s2 = s1\<lparr> lastRequestTime := now \<rparr>;
          s3 = (if success then s2\<lparr> successfulRequests := successfulRequests s2 + 1 \<rparr>
                else s2\<lparr> failedRequests := failedRequests s2 + 1 \<rparr>);
          s4 = (if fromCache then s3\<lparr> cacheHits := cacheHits s3 + 1 \<rparr> else s3)
      in s4\<lparr> averageResponseTime :=
              (averageResponseTime s4 * real (totalRequests s4 - 1) + of_int responseTime)
                / real (totalRequests s4) \<rparr>)"

text \<open>\<^verbatim>\<open>getProxyStats\<close> returns a copy of the record (lines 296-298).\<close>

definition getProxyStats :: "ProxyStats \<Rightarrow> ProxyStats" where
  "getProxyStats s = s"

text \<open>\<^verbatim>\<open>resetProxyStats\<close> overwrites the module variable (lines 301-310).\<close>

definition resetProxyStats :: "string \<Rightarrow> ProxyStats \<Rightarrow> ProxyStats" where
  "resetProxyStats now s =
     \<lparr> totalRequests = 0, successfulRequests = 0, failedRequests = 0, cacheHits = 0,
       averageResponseTime = 0, lastRequestTime = now \<rparr>"

text \<open>
  One call of \<^verbatim>\<open>updateProxyStats\<close>: its three arguments and the time stamp the call
  reads from the clock.
\<close>

record StatsCall =
  callSuccess :: bool
  callResponseTime :: int
  callFromCache :: bool
  callNow :: string

definition applyCall :: "ProxyStats \<Rightarrow> StatsCall \<Rightarrow> ProxyStats" where
  "applyCall s c =
     updateProxyStats (callSuccess c) (callResponseTime c) (callFromCache c) (callNow c) s"

text \<open>A finite sequence of calls, applied from left to right.\<close>

definition applyCalls :: "ProxyStats \<Rightarrow> StatsCall list \<Rightarrow> ProxyStats" where
  "applyCalls s cs = foldl applyCall s cs"

text \<open>Three calls for the examples.\<close>

definition sampleCalls :: "StatsCall list" where
  "sampleCalls =
     [\<lparr> callSuccess = True, callResponseTime = 12, callFromCache = True, callNow = ''t1'' \<rparr>,
      \<lparr> callSuccess = False, callResponseTime = 30, callFromCache = False, callNow = ''t2'' \<rparr>,
      \<lparr> callSuccess = True, callResponseTime = 18, callFromCache = False, callNow = ''t3'' \<rparr>]"

section \<open>URL utilities (src/api/v1/index.ts, lines 84-253)\<close>

text \<open>
  The part of a parsed \<^verbatim>\<open>URL\<close> object that the code reads. The constructor
  \<^verbatim>\<open>new URL(s)\<close> belongs to the platform and is a parameter of every function that
  calls it: \<open>None\<close> stands for the \<^verbatim>\<open>TypeError\<close> it throws on a string that is no
  absolute URL.
\<close>

record URL =
  protocol :: string
  hostname :: string
  pathname :: string
  search :: string
  hash :: string

type_synonym UrlParser = "string \<Rightarrow> URL option"

text \<open>
  \<open>newURL\<close> models the platform's parser on a fragment of its inputs, the one the
  examples below live in: \<^verbatim>\<open>scheme://host/path?query#fragment\<close> with one of the
  schemes http, https, ftp, ws and wss, a host of letters, digits, dots and hyphens, and
  a path, query and fragment of characters that the parser copies unchanged. On this
  fragment the parser turns scheme and host to lower case and removes the dot segments
  of the path. On every other string the model gives \<open>None\<close> whatever the platform does.
\<close>

definition isAlpha :: "char \<Rightarrow> bool" where
  "isAlpha c = ((CHR ''a'' \<le> c \<and> c \<le> CHR ''z'') \<or> (CHR ''A'' \<le> c \<and> c \<le> CHR ''Z''))"

definition isHostChar :: "char \<Rightarrow> bool" where
  "isHostChar c = (isAlpha c \<or> isDigit c \<or> c = CHR ''.'' \<or> c = CHR ''-'')"

definition isPlainUrlChar :: "char \<Rightarrow> bool" where
  "isPlainUrlChar c = (isAlpha c \<or> isDigit c \<or> c \<in> set ''-._~!$&()*+,;=:@/'')"

definition splitOn :: "char \<Rightarrow> string \<Rightarrow> string list" where
  "splitOn sep s = foldr (\<lambda>c acc. if c = sep then [] # acc else (c # hd acc) # tl acc) s [[]]"

text \<open>
  The path state of the parser: \<open>..\<close> drops the last segment kept so far, \<open>.\<close> is
  skipped, and either of them in last position leaves an empty segment.
\<close>

fun removeDotSegments :: "string list \<Rightarrow> string list \<Rightarrow> string list" where
  "removeDotSegments acc [] = acc"
| "removeDotSegments acc (s # rest) =
     (if s = ''..'' then removeDotSegments (butlast acc @ (if rest = [] then [[]] else [])) rest
      else if s = ''.'' then removeDotSegments (acc @ (if rest = [] then [[]] else [])) rest
      else removeDotSegments (acc @ [s]) rest)"

definition newURL :: UrlParser where
  "newURL s =
     (let scheme = toLowerCase (takeWhile (\<lambda>c. c \<noteq> CHR '':'') s);
          rest = drop (length scheme + 1) s;
          authority = takeWhile (\<lambda>c. c \<notin> set ''/?#'') (drop 2 rest);
          afterHost = dropWhile (\<lambda>c. c \<notin> set ''/?#'') (drop 2 rest);
          rawPath = takeWhile (\<lambda>c. c \<notin> set ''?#'') afterHost;
          afterPath = dropWhile (\<lambda>c. c \<notin> set ''?#'') afterHost;
          query = takeWhile (\<lambda>c. c \<noteq> CHR ''#'') afterPath;
          fragment = dropWhile (\<lambda>c. c \<noteq> CHR ''#'') afterPath
      in if scheme \<in> set [''http'', ''https'', ''ftp'', ''ws'', ''wss'']
            \<and> startsWith (drop (length scheme) s) ''://''
            \<and> authority \<noteq> [] \<and> list_all isHostChar authority
            \<and> list_all isPlainUrlChar rawPath
            \<and> list_all isPlainUrlChar (drop 1 query)
            \<and> list_all isPlainUrlChar (drop 1 fragment)
         then Some \<lparr> protocol = scheme @ '':'',
                     hostname = toLowerCase authority,
                     pathname = concat (map (\<lambda>seg. CHR ''/'' # seg)
                                  (removeDotSegments [] (splitOn CHR ''/'' (drop 1 rawPath)))),
                     search = (if length query \<le> 1 then [] else query),
                     hash = (if length fragment \<le> 1 then [] else fragment) \<rparr>
         else None)"

record ProxyConfig =
  baseUrl :: string
  originalDomain :: string
  proxyPath :: string

definition DEFAULT_PROXY_CONFIG :: ProxyConfig where
  "DEFAULT_PROXY_CONFIG =
     \<lparr> baseUrl = ''https://your-domain.vercel.app'',
       originalDomain = ''infinitypro-img.infinitynewtab.com'',
       proxyPath = ''/api/wallpaper'' \<rparr>"

text \<open>
  \<^verbatim>\<open>subject.match(/lit(.+)/)\<close> for a literal text \<open>lit\<close>, giving the first capture
  group: the pattern is not anchored, the leftmost match wins, the dot matches every
  character but a line terminator, and \<open>+\<close> takes as many characters as it can.
\<close>

definition isLineTerminator :: "char \<Rightarrow> bool" where
  "isLineTerminator c = (c = CHR 0x0A \<or> c = CHR 0x0D)"

fun matchAfter :: "string \<Rightarrow> string \<Rightarrow> string option" where
  "matchAfter lit [] = None"
| "matchAfter lit (c # cs) =
     (if startsWith (c # cs) lit
         \<and> takeWhile (\<lambda>x. \<not> isLineTerminator x) (drop (length lit) (c # cs)) \<noteq> []
      then Some (takeWhile (\<lambda>x. \<not> isLineTerminator x) (drop (length lit) (c # cs)))
      else matchAfter lit cs)"

text \<open>\<^verbatim>\<open>convertToProxyUrl\<close> (lines 99-119).\<close>

definition convertToProxyUrl :: "UrlParser \<Rightarrow> ProxyConfig \<Rightarrow> string \<Rightarrow> string option" where
  "convertToProxyUrl parse config originalUrl =
     (case parse originalUrl of
        None \<Rightarrow> None
      | Some u \<Rightarrow>
          if hostname u \<noteq> originalDomain config then None
          else
            (case matchAfter ''/wallpaper/'' (pathname u) of
               None \<Rightarrow> None
             | Some path \<Rightarrow> Some (baseUrl config @ proxyPath config @ ''/'' @ path)))"

text \<open>
  \<^verbatim>\<open>convertToOriginalUrl\<close> (lines 122-137) builds its pattern from the configured
  proxy path, in which it escapes the slashes only. When the proxy path has no character
  with a meaning in a pattern, the pattern is the literal path followed by
  \<^verbatim>\<open>\/(.+)\<close>. Otherwise the outcome is that of the platform's regular expressions, a
  parameter: \<open>regExp src subject\<close> is the first group of the first match of the pattern
  \<open>src\<close> in \<open>subject\<close>, and \<open>None\<close> when there is no match or \<open>src\<close> is no pattern
  (the \<^verbatim>\<open>SyntaxError\<close> is caught by the function).
\<close>

type_synonym RegExpEngine = "string \<Rightarrow> string \<Rightarrow> string option"

definition isSyntaxCharacter :: "char \<Rightarrow> bool" where
  "isSyntaxCharacter c = (c = CHR 0x5C \<or> c \<in> set ''^$.|?*+()[]{}'')"

definition escapeSlashes :: "string \<Rightarrow> string" where
  "escapeSlashes s = concat (map (\<lambda>c. if c = CHR ''/'' then [CHR 0x5C, CHR ''/''] else [c]) s)"

definition proxyPathMatch :: "RegExpEngine \<Rightarrow> string \<Rightarrow> string \<Rightarrow> string option" where
  "proxyPathMatch regExp path subject =
     (if list_all (\<lambda>c. \<not> isSyntaxCharacter c) path
      then matchAfter (path @ ''/'') subject
      else regExp (escapeSlashes path @ [CHR 0x5C] @ ''/(.+)'') subject)"

definition convertToOriginalUrl ::
  "UrlParser \<Rightarrow> RegExpEngine \<Rightarrow> ProxyConfig \<Rightarrow> string \<Rightarrow> string option" where
  "convertToOriginalUrl parse regExp config proxyUrl =
     (case parse proxyUrl of
        None \<Rightarrow> None
      | Some u \<Rightarrow>
          (case proxyPathMatch regExp (proxyPath config) (pathname u) of
             None \<Rightarrow> None
           | Some path \<Rightarrow> Some (''https://'' @ originalDomain config @ ''/wallpaper/'' @ path)))"

text \<open>\<^verbatim>\<open>validateImageUrl\<close> (lines 160-183).\<close>

record ValidationResult =
  valid :: bool
  reason :: "string option"

definition validExtensions :: "string list" where
  "validExtensions = [''.jpg'', ''.jpeg'', ''.png'', ''.webp'', ''.gif'', ''.bmp'']"

definition validateImageUrl :: "UrlParser \<Rightarrow> string \<Rightarrow> ValidationResult" where
  "validateImageUrl parse u =
     (case parse u of
        None \<Rightarrow> \<lparr> valid = False, reason = Some ''Invalid URL format'' \<rparr>
      | Some urlObj \<Rightarrow>
          if protocol urlObj \<notin> set [''http:'', ''https:'']
          then \<lparr> valid = False, reason = Some ''Invalid protocol'' \<rparr>
          else
            (let hasValidExtension =
                   list_ex (\<lambda>ext. endsWith (toLowerCase (pathname urlObj)) ext) validExtensions
             in if \<not> hasValidExtension
                then \<lparr> valid = False, reason = Some ''Invalid image extension'' \<rparr>
                else \<lparr> valid = True, reason = None \<rparr>))"

text \<open>
  \<^verbatim>\<open>getMimeType\<close> (lines 204-215) and \<^verbatim>\<open>generateImageMetadata\<close> (lines 186-201).
\<close>

definition getMimeType :: "string \<Rightarrow> string" where
  "getMimeType ext =
     (case map_of [(''jpg'', ''image/jpeg''), (''jpeg'', ''image/jpeg''), (''png'', ''image/png''),
                   (''webp'', ''image/webp''), (''gif'', ''image/gif''), (''bmp'', ''image/bmp'')]
             (toLowerCase ext) of
        Some m \<Rightarrow> m
      | None \<Rightarrow> ''image/jpeg'')"

record ImageMetadata =
  filename :: string
  extension :: string
  mimeType :: string
  isSupported :: bool

definition generateImageMetadata :: "UrlParser \<Rightarrow> string \<Rightarrow> ImageMetadata option" where
  "generateImageMetadata parse u =
     (case parse u of
        None \<Rightarrow> None
      | Some urlObj \<Rightarrow>
          (let popped = lastSegment CHR ''/'' (pathname urlObj);
               filename' = (if popped = [] then ''image'' else popped);
               lowered = toLowerCase (lastSegment CHR ''.'' filename');
               extension' = (if lowered = [] then ''jpg'' else lowered)
           in Some \<lparr> filename = filename', extension = extension',
                     mimeType = getMimeType extension',
                     isSupported = (extension' \<in> set [''jpg'', ''jpeg'', ''png'', ''webp'', ''gif'']) \<rparr>))"

text \<open>
  \<^verbatim>\<open>convertToOriginalUrl(convertToProxyUrl(u))\<close>: the inner call may return
  \<^verbatim>\<open>null\<close>, which the outer call does not parse as a URL.
\<close>

definition roundTrip :: "UrlParser \<Rightarrow> RegExpEngine \<Rightarrow> ProxyConfig \<Rightarrow> string \<Rightarrow> string option" where
  "roundTrip parse regExp config u =
     (case convertToProxyUrl parse config u of
        None \<Rightarrow> None
      | Some proxyUrl \<Rightarrow> convertToOriginalUrl parse regExp config proxyUrl)"

text \<open>
  A string ends in \<open>ext\<close> up to the case of its letters: it has a suffix that reads
  \<open>ext\<close> in lower case.
\<close>

definition endsWithIgnoringCase :: "string \<Rightarrow> string \<Rightarrow> bool" where
  "endsWithIgnoringCase s ext = (\<exists>stem suffix. s = stem @ suffix \<and> toLowerCase suffix = ext)"

text \<open>
  Data for the examples: a URL under the configured domain, its path below
  \<^verbatim>\<open>/wallpaper/\<close>, its proxy URL, and an engine for the patterns that the default
  configuration never builds.
\<close>

definition sampleWallpaperPath :: string where
  "sampleWallpaperPath = ''abc/1.jpg''"

definition sampleWallpaperUrl :: string where
  "sampleWallpaperUrl = ''https://infinitypro-img.infinitynewtab.com/wallpaper/abc/1.jpg''"

definition sampleProxyUrl :: string where
  "sampleProxyUrl = ''https://your-domain.vercel.app/api/wallpaper/abc/1.jpg''"

definition noRegExp :: RegExpEngine where
  "noRegExp pattern subject = None"

section \<open>Image proxy handler (src/unnamed/part_000)\<close>

text \<open>
  What the handler reads from the request context: the wildcard parameter
  \<^verbatim>\<open>c.req.param('*')\<close> (\<open>None\<close> when undefined), the request path and the two
  conditional headers.
\<close>

record ProxyRequest =
  paramStar :: "string option"
  reqPath :: string
  ifNoneMatch :: "string option"
  ifModifiedSince :: "string option"

text \<open>
  The origin's response: its status and status text, what \<^verbatim>\<open>arrayBuffer()\<close> gives
  (\<open>None\<close> when it rejects) and its headers.
\<close>

record OriginResponse =
  originStatus :: nat
  originStatusText :: string
  originBody :: "nat list option"
  originHeaders :: "string \<Rightarrow> string option"

datatype FetchResult = FetchThrows string | FetchResolves OriginResponse

text \<open>
  The surroundings of one request: the platform's URL parser, what \<^verbatim>\<open>fetch\<close> does
  for a URL and a list of request headers, which header values \<^verbatim>\<open>Headers.set\<close>
  accepts (it throws a \<^verbatim>\<open>TypeError\<close> on the others), and the clock:
  \<^verbatim>\<open>Date.now() - startTime\<close> where the response time header is written and where the
  statistics are updated, and the time stamp that the statistics read.
\<close>

record ProxyEnv =
  urlParser :: UrlParser
  fetchOrigin :: "string \<Rightarrow> (string \<times> string) list \<Rightarrow> FetchResult"
  headerValueOk :: "string \<Rightarrow> bool"
  elapsedAtHeaders :: int
  elapsedAtStats :: int
  clockIso :: string

datatype JsonValue = JString string | JNumber int

datatype ResponseBody = NoBody | JsonBody "(string \<times> JsonValue) list" | BytesBody "nat list"

text \<open>
  A response: status, the headers the handler sets (those the framework adds to a JSON
  response are left out) and the body.
\<close>

record HttpResponse =
  httpStatus :: nat
  httpHeaders :: "(string \<times> string) list"
  httpBody :: ResponseBody

definition jsonResponse :: "(string \<times> JsonValue) list \<Rightarrow> nat \<Rightarrow> HttpResponse" where
  "jsonResponse obj st = \<lparr> httpStatus = st, httpHeaders = [], httpBody = JsonBody obj \<rparr>"

text \<open>The decimal text of a number, for \<^verbatim>\<open>`${n}ms`\<close>.\<close>

fun showNat :: "nat \<Rightarrow> string" where
  "showNat n =
     (if n < 10 then [char_of (48 + n)] else showNat (n div 10) @ [char_of (48 + n mod 10)])"

definition showInt :: "int \<Rightarrow> string" where
  "showInt i = (if i < 0 then CHR ''-'' # showNat (nat (- i)) else showNat (nat i))"

text \<open>A header the handler sets only when the origin sent its value.\<close>

definition optionalHeader :: "string \<Rightarrow> string option \<Rightarrow> (string \<times> string) list" where
  "optionalHeader name v = (case v of None \<Rightarrow> [] | Some x \<Rightarrow> if x = [] then [] else [(name, x)])"

text \<open>
  Lines 49-54: the wildcard parameter, or else the request path without the route
  prefix; one leading slash is dropped.
\<close>

definition requestPath :: "ProxyRequest \<Rightarrow> string" where
  "requestPath req =
     (let path =
            (case paramStar req of
               None \<Rightarrow> replaceFirst ''/api/findaphoto/'' [] (reqPath req)
             | Some p \<Rightarrow>
                 if p = [] then replaceFirst ''/api/findaphoto/'' [] (reqPath req) else p)
      in if startsWith path ''/'' then drop 1 path else path)"

text \<open>Line 62: the URL of the image at the origin.\<close>

definition buildOriginalUrl :: "string \<Rightarrow> string" where
  "buildOriginalUrl path = ''https://infinitypro-img.infinitynewtab.com/findaphoto/'' @ path"

definition originalUrlOf :: "ProxyRequest \<Rightarrow> string" where
  "originalUrlOf req = buildOriginalUrl (requestPath req)"

text \<open>Lines 76-89: the headers of the outbound request.\<close>

definition fetchHeadersOf :: "ProxyRequest \<Rightarrow> (string \<times> string) list" where
  "fetchHeadersOf req =
     [(''User-Agent'', ''Mozilla/5.0 (Windows NT 10.0; Win64; x64) AppleWebKit/537.36''),
      (''Accept'', ''image/webp,image/apng,image/*,*/*;q=0.8''),
      (''Accept-Language'', ''zh-CN,zh;q=0.9,en;q=0.8''),
      (''Referer'', ''https://infinitynewtab.com/'')]
     @ optionalHeader ''If-None-Match'' (ifNoneMatch req)
     @ optionalHeader ''If-Modified-Since'' (ifModifiedSince req)"

text \<open>The call \<^verbatim>\<open>updateProxyStats(success, Date.now() - startTime, fromCache)\<close>.\<close>

definition statsCall :: "ProxyEnv \<Rightarrow> bool \<Rightarrow> bool \<Rightarrow> StatsCall" where
  "statsCall env success fromCache =
     \<lparr> callSuccess = success, callResponseTime = elapsedAtStats env,
       callFromCache = fromCache, callNow = clockIso env \<rparr>"

text \<open>Lines 131-157: the headers of the image response, in the order they are set.\<close>

definition imageHeaders :: "ProxyEnv \<Rightarrow> string \<Rightarrow> OriginResponse \<Rightarrow> (string \<times> string) list" where
  "imageHeaders env originalUrl response =
     (let contentType =
            (case originHeaders response ''content-type'' of
               None \<Rightarrow> ''image/jpeg''
             | Some t \<Rightarrow> if t = [] then ''image/jpeg'' else t);
          metadata = generateImageMetadata (urlParser env) originalUrl
      in [(''Content-Type'', contentType),
          (''Cache-Control'', ''public, max-age=31536000, immutable''),
          (''Access-Control-Allow-Origin'', ''*''),
          (''Access-Control-Allow-Methods'', ''GET, HEAD, OPTIONS''),
          (''Access-Control-Allow-Headers'', ''Content-Type'')]
         @ optionalHeader ''Content-Length'' (originHeaders response ''content-length'')
         @ optionalHeader ''Last-Modified'' (originHeaders response ''last-modified'')
         @ optionalHeader ''ETag'' (originHeaders response ''etag'')
         @ [(''X-Proxy-Source'', ''infinity-wallpaper-proxy''),
            (''X-Original-URL'', originalUrl),
            (''X-Response-Time'', showInt (elapsedAtHeaders env) @ ''ms''),
            (''X-Cache-Status'', ''miss'')]
         @ (case metadata of
              None \<Rightarrow> []
            | Some m \<Rightarrow> [(''X-Image-Format'', extension m), (''X-Image-Filename'', filename m)]))"

text \<open>
  The \<^verbatim>\<open>try\<close> block of the wildcard handler (lines 47-164): the response it returns
  or the error it throws, and the calls of \<^verbatim>\<open>updateProxyStats\<close> made on the way, in
  order. The statements that can throw are the fetch, \<^verbatim>\<open>response.arrayBuffer()\<close>
  and \<^verbatim>\<open>headers.set\<close>; all of them come before the call of line 159. The
  constructors of the responses do not throw on the statuses the handler passes.
\<close>

definition proxyTryBlock ::
  "ProxyEnv \<Rightarrow> ProxyRequest \<Rightarrow> (JsError + HttpResponse) \<times> StatsCall list" where
  "proxyTryBlock env req =
     (let path = requestPath req in
      if path = []
      then (Inr (jsonResponse [(''error'', JString ''Path is required'')] 400),
            [statsCall env False False])
      else
        (let originalUrl = buildOriginalUrl path;
             validation = validateImageUrl (urlParser env) originalUrl
         in if \<not> valid validation
            then (Inr (jsonResponse
                        ((''error'', JString ''Invalid image URL'')
                         # (case reason validation of
                              None \<Rightarrow> []
                            | Some r \<Rightarrow> [(''reason'', JString r)])) 400),
                  [statsCall env False False])
            else
              (case fetchOrigin env originalUrl (fetchHeadersOf req) of
                 FetchThrows msg \<Rightarrow> (Inl (TypeError msg), [])
               | FetchResolves response \<Rightarrow>
                   if originStatus response = 304
                   then (Inr \<lparr> httpStatus = 304,
                               httpHeaders =
                                 [(''Cache-Control'', ''public, max-age=31536000, immutable''),
                                  (''X-Proxy-Source'', ''infinity-wallpaper-proxy''),
                                  (''X-Cache-Status'', ''not-modified'')],
                               httpBody = NoBody \<rparr>,
                         [statsCall env True True])
                   else if \<not> responseOk (originStatus response)
                   then
                     (let statusCode =
                            (if 400 \<le> originStatus response \<and> originStatus response < 600
                             then originStatus response else 404)
                      in (Inr (jsonResponse
                                [(''error'', JString ''Image not found''),
                                 (''status'', JNumber (int (originStatus response))),
                                 (''originalUrl'', JString originalUrl)] statusCode),
                          [statsCall env False False]))
                   else
                     (case originBody response of
                        None \<Rightarrow> (Inl (TypeError ''Failed to read the response body''), [])
                      | Some imageBuffer \<Rightarrow>
                          (let headers = imageHeaders env originalUrl response in
                           if \<not> list_all (\<lambda>h. headerValueOk env (snd h)) headers
                           then (Inl (TypeError ''Invalid header value''), [])
                           else (Inr \<lparr> httpStatus = 200, httpHeaders = headers,
                                       httpBody = BytesBody imageBuffer \<rparr>,
                                 [statsCall env True False]))))))"

definition errorMessage :: "JsError \<Rightarrow> string" where
  "errorMessage e = (case e of Error m \<Rightarrow> m | TypeError m \<Rightarrow> m)"

text \<open>
  The handler (lines 44-174): the \<^verbatim>\<open>catch\<close> block (lines 166-173) answers a throw
  with one more call of \<^verbatim>\<open>updateProxyStats\<close> and the response of status 500.
\<close>

definition proxyHandler :: "ProxyEnv \<Rightarrow> ProxyRequest \<Rightarrow> HttpResponse \<times> StatsCall list" where
  "proxyHandler env req =
     (case proxyTryBlock env req of
        (Inr response, calls) \<Rightarrow> (response, calls)
      | (Inl err, calls) \<Rightarrow>
          (jsonResponse [(''error'', JString ''Internal server error''),
                         (''message'', JString (errorMessage err))] 500,
           calls @ [statsCall env False False]))"

text \<open>The handler on the module variable \<^verbatim>\<open>proxyStats\<close>.\<close>

definition proxyHandlerStats :: "ProxyEnv \<Rightarrow> ProxyRequest \<Rightarrow> ProxyStats \<Rightarrow> HttpResponse \<times> ProxyStats" where
  "proxyHandlerStats env req stats =
     (fst (proxyHandler env req), applyCalls stats (snd (proxyHandler env req)))"

definition sampleNotModified :: OriginResponse where
  "sampleNotModified =
     \<lparr> originStatus = 304, originStatusText = ''Not Modified'', originBody = Some [],
       originHeaders = (\<lambda>h. None) \<rparr>"

definition sampleImage :: OriginResponse where
  "sampleImage =
     \<lparr> originStatus = 200, originStatusText = ''OK'', originBody = Some [255, 216, 255],
       originHeaders = [''content-type'' \<mapsto> ''image/jpeg'', ''etag'' \<mapsto> ''abc''] \<rparr>"

definition sampleNotFound :: OriginResponse where
  "sampleNotFound =
     \<lparr> originStatus = 404, originStatusText = ''Not Found'', originBody = Some [],
       originHeaders = (\<lambda>h. None) \<rparr>"

text \<open>
  An origin that has one image, answers 304 to a request for it that carries its entity
  tag, cannot be reached for one URL and answers 404 to everything else.
\<close>

definition sampleOrigin :: "string \<Rightarrow> (string \<times> string) list \<Rightarrow> FetchResult" where
  "sampleOrigin u hdrs =
     (if u = buildOriginalUrl ''bigLink/17021.jpg''
      then (if map_of hdrs ''If-None-Match'' = Some ''abc''
            then FetchResolves sampleNotModified
            else FetchResolves sampleImage)
      else if u = buildOriginalUrl ''bigLink/down.jpg''
      then FetchThrows ''fetch failed''
      else FetchResolves sampleNotFound)"

text \<open>
  The surroundings of the examples, with the parser \<open>newURL\<close> and headers that are all
  accepted, and a request for a path below the route prefix.
\<close>

definition sampleEnv :: ProxyEnv where
  "sampleEnv =
     \<lparr> urlParser = newURL, fetchOrigin = sampleOrigin, headerValueOk = (\<lambda>v. True),
       elapsedAtHeaders = 11, elapsedAtStats = 12, clockIso = ''2026-01-01T00:00:00.000Z'' \<rparr>"

definition sampleRequest :: "string \<Rightarrow> string option \<Rightarrow> ProxyRequest" where
  "sampleRequest p inm =
     \<lparr> paramStar = None, reqPath = ''/api/findaphoto/'' @ p, ifNoneMatch = inm,
       ifModifiedSince = None \<rparr>"

section \<open>Properties of the statistics store\<close>

lemma updateProxyStats_total:
  "totalRequests (updateProxyStats b r f t s) = totalRequests s + 1"
  by (simp add: updateProxyStats_def Let_def)

lemma updateProxyStats_successful:
  "successfulRequests (updateProxyStats b r f t s) =
     (if b then successfulRequests s + 1 else successfulRequests s)"
  by (simp add: updateProxyStats_def Let_def)

lemma updateProxyStats_failed:
  "failedRequests (updateProxyStats b r f t s) =
     (if b then failedRequests s else failedRequests s + 1)"
  by (simp add: updateProxyStats_def Let_def)

lemma updateProxyStats_hits:
  "cacheHits (updateProxyStats b r f t s) = (if f then cacheHits s + 1 else cacheHits s)"
  by (simp add: updateProxyStats_def Let_def)

lemmas updateProxyStats_counters =
  updateProxyStats_total updateProxyStats_successful updateProxyStats_failed
  updateProxyStats_hits

lemma applyCalls_snoc: "applyCalls s (cs @ [c]) = applyCall (applyCalls s cs) c"
  by (simp add: applyCalls_def)

lemma applyCalls_balance:
  "successfulRequests s + failedRequests s = totalRequests s \<Longrightarrow>
   successfulRequests (applyCalls s cs) + failedRequests (applyCalls s cs)
     = totalRequests (applyCalls s cs)"
proof (induction cs rule: rev_induct)
  case Nil
  then show ?case by (simp add: applyCalls_def)
next
  case (snoc c cs)
  then show ?case
    by (simp add: applyCalls_snoc applyCall_def updateProxyStats_counters)
qed

lemma applyCalls_hits_total:
  "cacheHits s \<le> totalRequests s \<Longrightarrow>
   cacheHits (applyCalls s cs) \<le> totalRequests (applyCalls s cs)"
proof (induction cs rule: rev_induct)
  case Nil
  then show ?case by (simp add: applyCalls_def)
next
  case (snoc c cs)
  then show ?case
    by (simp add: applyCalls_snoc applyCall_def updateProxyStats_counters)
qed

lemma applyCalls_hits_successful:
  "cacheHits s \<le> successfulRequests s \<Longrightarrow>
   list_all (\<lambda>c. if callFromCache c then callSuccess c else True) cs \<Longrightarrow>
   cacheHits (applyCalls s cs) \<le> successfulRequests (applyCalls s cs)"
proof (induction cs rule: rev_induct)
  case Nil
  then show ?case by (simp add: applyCalls_def)
next
  case (snoc c cs)
  then have "cacheHits (applyCalls s cs) \<le> successfulRequests (applyCalls s cs)"
    by simp
  moreover from snoc.prems(2) have "callFromCache c \<Longrightarrow> callSuccess c"
    by (simp split: if_splits)
  ultimately show ?case
    by (auto simp add: applyCalls_snoc applyCall_def updateProxyStats_counters)
qed

text \<open>
  Claim C3. After any finite sequence of \<^verbatim>\<open>updateProxyStats\<close> calls that starts from
  the initial statistics, or from the statistics that \<^verbatim>\<open>resetProxyStats\<close> leaves
  behind in any state, the successful and the failed requests add up to the total, and
  the cache hits do not exceed the total.
\<close>

theorem stats_invariant_after_updates:
  "successfulRequests (applyCalls (initialProxyStats t0) cs)
     + failedRequests (applyCalls (initialProxyStats t0) cs)
     = totalRequests (applyCalls (initialProxyStats t0) cs)
   \<and> cacheHits (applyCalls (initialProxyStats t0) cs)
     \<le> totalRequests (applyCalls (initialProxyStats t0) cs)
   \<and> successfulRequests (applyCalls (resetProxyStats t1 s) cs)
     + failedRequests (applyCalls (resetProxyStats t1 s) cs)
     = totalRequests (applyCalls (resetProxyStats t1 s) cs)
   \<and> cacheHits (applyCalls (resetProxyStats t1 s) cs)
     \<le> totalRequests (applyCalls (resetProxyStats t1 s) cs)"
proof -
  have i: "successfulRequests (initialProxyStats t0) + failedRequests (initialProxyStats t0)
             = totalRequests (initialProxyStats t0)"
    and j: "cacheHits (initialProxyStats t0) \<le> totalRequests (initialProxyStats t0)"
    by (simp_all add: initialProxyStats_def)
  have k: "successfulRequests (resetProxyStats t1 s) + failedRequests (resetProxyStats t1 s)
             = totalRequests (resetProxyStats t1 s)"
    and l: "cacheHits (resetProxyStats t1 s) \<le> totalRequests (resetProxyStats t1 s)"
    by (simp_all add: resetProxyStats_def)
  show ?thesis
    using applyCalls_balance [OF i] applyCalls_hits_total [OF j]
      applyCalls_balance [OF k] applyCalls_hits_total [OF l]
    by blast
qed

text \<open>
  Claim C4, as stated, fails: \<^verbatim>\<open>updateProxyStats\<close> accepts any combination of its
  arguments, and one call with \<open>success = false\<close> and \<open>fromCache = true\<close> from the
  initial state leaves one cache hit and no successful request.
\<close>

theorem cacheHits_exceed_successful_counterexample:
  "\<not> cacheHits (updateProxyStats False 0 True ''t1'' (initialProxyStats ''t0''))
       \<le> successfulRequests (updateProxyStats False 0 True ''t1'' (initialProxyStats ''t0''))"
  by (simp add: updateProxyStats_counters initialProxyStats_def)

text \<open>
  Claim C4, amended. When every call of the sequence that passes \<open>fromCache = true\<close>
  also passes \<open>success = true\<close> (the only combination the image proxy handler uses,
  see \<open>proxyHandler_calls_consistent\<close> below),
  the cache hits do not exceed the successful requests in any state reached from the
  initial or the reset statistics.
\<close>

theorem cacheHits_le_successful:
  assumes "list_all (\<lambda>c. if callFromCache c then callSuccess c else True) cs"
  shows "cacheHits (applyCalls (initialProxyStats t0) cs)
           \<le> successfulRequests (applyCalls (initialProxyStats t0) cs)
         \<and> cacheHits (applyCalls (resetProxyStats t1 s) cs)
           \<le> successfulRequests (applyCalls (resetProxyStats t1 s) cs)"
proof -
  have "cacheHits (initialProxyStats t0) \<le> successfulRequests (initialProxyStats t0)"
    by (simp add: initialProxyStats_def)
  moreover have "cacheHits (resetProxyStats t1 s) \<le> successfulRequests (resetProxyStats t1 s)"
    by (simp add: resetProxyStats_def)
  ultimately show ?thesis
    using assms applyCalls_hits_successful by blast
qed

text \<open>
  The amended claim C4 on three calls, the first of which is a cache hit.
\<close>

theorem cacheHits_le_successful_witness:
  "list_all (\<lambda>c. if callFromCache c then callSuccess c else True) sampleCalls
   \<and> cacheHits (applyCalls (initialProxyStats ''t0'') sampleCalls) = 1
   \<and> successfulRequests (applyCalls (initialProxyStats ''t0'') sampleCalls) = 2
   \<and> cacheHits (applyCalls (initialProxyStats ''t0'') sampleCalls)
       \<le> successfulRequests (applyCalls (initialProxyStats ''t0'') sampleCalls)"
proof -
  have a: "list_all (\<lambda>c. if callFromCache c then callSuccess c else True) sampleCalls"
    by (simp add: sampleCalls_def)
  have b: "cacheHits (applyCalls (initialProxyStats ''t0'') sampleCalls) = 1"
    "successfulRequests (applyCalls (initialProxyStats ''t0'') sampleCalls) = 2"
    by (simp_all add: sampleCalls_def applyCalls_def applyCall_def updateProxyStats_counters
        initialProxyStats_def)
  show ?thesis
    using cacheHits_le_successful [OF a, of "''t0''"] a b by simp
qed

section \<open>Properties of the wallpaper catalog\<close>

subsection \<open>Slices, page counts and page numbers\<close>

lemma slice_take_drop:
  "0 \<le> a \<Longrightarrow> 0 \<le> b \<Longrightarrow> slice xs a (a + b) = take (nat b) (drop (nat a) xs)"
  by (auto simp add: slice_def Let_def min_def nat_diff_distrib nat_add_distrib)

lemma ceilDiv_ceiling:
  "b \<noteq> 0 \<Longrightarrow> ceilDiv a b = Fin \<lceil>real_of_int a / real_of_int b\<rceil>"
  by (simp add: ceilDiv_def ceiling_divide_eq_div)

lemma isDigit_plain:
  "isDigit c \<Longrightarrow> \<not> isWhiteSpace c \<and> c \<noteq> CHR ''+'' \<and> c \<noteq> CHR ''-''"
  by (auto simp add: isDigit_def isWhiteSpace_def less_eq_char_def)

lemma parseInt_digits_prefix:
  assumes "ds \<noteq> []" "list_all isDigit ds" "rest = [] \<or> \<not> isDigit (hd rest)"
  shows "parseInt (ds @ rest) = Some (digitsValue ds)"
proof -
  obtain d ds' where ds: "ds = d # ds'" using assms(1) by (cases ds) auto
  with assms(2) have d: "isDigit d" by simp
  have tw: "takeWhile isDigit (ds @ rest) = ds"
    using assms(2,3) by (cases rest) (auto simp add: list_all_iff takeWhile_append2 intro: takeWhile_eq_all_conv[THEN iffD2])
  show ?thesis
    using isDigit_plain[OF d] tw assms(1) unfolding parseInt_def ds
    by (simp add: Let_def)
qed

text \<open>
  Once the catalog is loaded, the result is decided by the page number alone.
\<close>

lemma getWallpaperList_loaded:
  assumes "fst (loadWallpaperData now fetched st) = Inr catalog"
  shows "fst (getWallpaperList pg src pageSize now fetched st) =
     (case parseInt (pageOrDefault pg) of
        None \<Rightarrow> emptyListResult 400 ''Invalid page number''
      | Some p \<Rightarrow>
          if p < 1 then emptyListResult 400 ''Invalid page number''
          else \<lparr> code = 200,
                 data = \<lparr> list = slice (filterBySource src catalog) ((p - 1) * pageSize)
                                   ((p - 1) * pageSize + pageSize),
                          total = length (filterBySource src catalog), page = p,
                          totalPage = ceilDiv (int (length (filterBySource src catalog))) pageSize \<rparr>,
                 message = ''Success'' \<rparr>)"
proof -
  obtain st' where "loadWallpaperData now fetched st = (Inr catalog, st')"
    using assms by (cases "loadWallpaperData now fetched st") auto
  then show ?thesis
    by (simp add: getWallpaperList_def Let_def split: option.splits)
qed

text \<open>
  Evaluations used by the examples: a fetch into an empty cache, the filter
  \<^verbatim>\<open>unsplash\<close> on the catalog of 45 items, and four page strings.
\<close>

lemma load_cold:
  "fst (loadWallpaperData now (FetchResponse 200 (Some d)) coldCatalogCache) = Inr d"
  by (simp add: loadWallpaperData_def coldCatalogCache_def responseOk_def)

lemma filter_unsplash45:
  "filterBySource (Some ''unsplash'') unsplash45 = unsplash45"
  by (simp add: filterBySource_def unsplash45_def trim_def isWhiteSpace_def toLowerCase_def
      toLowerChar_def startsWith_def sourceOnlyItem_def)

lemma parseInt_3: "parseInt (pageOrDefault (Some ''3'')) = Some 3"
  by (simp add: parseInt_def pageOrDefault_def isWhiteSpace_def isDigit_def digitsValue_def
      digitValue_def)

lemma parseInt_abc: "parseInt (pageOrDefault (Some ''abc'')) = None"
  by (simp add: parseInt_def pageOrDefault_def isWhiteSpace_def isDigit_def digitsValue_def
      digitValue_def)

lemma parseInt_0: "parseInt (pageOrDefault (Some ''0'')) = Some 0"
  by (simp add: parseInt_def pageOrDefault_def isWhiteSpace_def isDigit_def digitsValue_def
      digitValue_def)

lemma digits_2: "list_all isDigit ''2'' \<and> \<not> isDigit CHR ''a'' \<and> digitsValue ''2'' = 2"
  by (simp add: isDigit_def digitsValue_def digitValue_def)

text \<open>
  Claim C1. When the catalog is loaded, the page size is positive and the page string
  parses to an integer \<open>p \<ge> 1\<close>, \<^verbatim>\<open>getWallpaperList\<close> returns code 200, the length
  of the filtered list as total, the ceiling of total over page size as number of pages,
  and as list the elements of the filtered list from index \<open>(p - 1) * pageSize\<close> up to,
  not including, \<open>p * pageSize\<close>. On a filtered list of 45 items with page size 20 there
  are 3 pages, page 1 has 20 items, page 3 has 5 and page 4 is empty; any page beyond
  the last one is an empty list with code 200.
\<close>

theorem getWallpaperList_page:
  assumes "fst (loadWallpaperData now fetched st) = Inr catalog"
    and "0 < pageSize"
    and "parseInt (pageOrDefault pg) = Some p"
    and "1 \<le> p"
  shows "let r = fst (getWallpaperList pg src pageSize now fetched st);
             filtered = filterBySource src catalog
         in code r = 200
          \<and> total (data r) = length filtered
          \<and> totalPage (data r) = Fin \<lceil>real (length filtered) / real_of_int pageSize\<rceil>
          \<and> page (data r) = p
          \<and> list (data r) = take (nat pageSize) (drop (nat ((p - 1) * pageSize)) filtered)
          \<and> (length filtered = 45 \<and> pageSize = 20 \<longrightarrow>
                totalPage (data r) = Fin 3
              \<and> (p = 1 \<longrightarrow> length (list (data r)) = 20)
              \<and> (p = 3 \<longrightarrow> length (list (data r)) = 5)
              \<and> (p = 4 \<longrightarrow> list (data r) = []))
          \<and> (totalPage (data r) = Fin q \<and> q < p \<longrightarrow> list (data r) = [])"
proof -
  let ?fd = "filterBySource src catalog"
  let ?r = "fst (getWallpaperList pg src pageSize now fetched st)"
  have r: "?r = \<lparr> code = 200,
                 data = \<lparr> list = slice ?fd ((p - 1) * pageSize) ((p - 1) * pageSize + pageSize),
                          total = length ?fd, page = p,
                          totalPage = ceilDiv (int (length ?fd)) pageSize \<rparr>,
                 message = ''Success'' \<rparr>"
    using assms by (simp add: getWallpaperList_loaded)
  have lo: "0 \<le> (p - 1) * pageSize" using assms(2,4) by simp
  have sl: "list (data ?r) = take (nat pageSize) (drop (nat ((p - 1) * pageSize)) ?fd)"
    using lo assms(2) by (simp add: r slice_take_drop)
  have tp: "totalPage (data ?r) = Fin \<lceil>real (length ?fd) / real_of_int pageSize\<rceil>"
    using assms(2) ceilDiv_ceiling [of pageSize "int (length ?fd)"] by (simp add: r)
  have inst: "length ?fd = 45 \<and> pageSize = 20 \<longrightarrow>
                totalPage (data ?r) = Fin 3
              \<and> (p = 1 \<longrightarrow> length (list (data ?r)) = 20)
              \<and> (p = 3 \<longrightarrow> length (list (data ?r)) = 5)
              \<and> (p = 4 \<longrightarrow> list (data ?r) = [])"
  proof
    assume a: "length ?fd = 45 \<and> pageSize = 20"
    have "totalPage (data ?r) = Fin 3"
      by (simp only: tp) (simp add: a)
    moreover have "length (list (data ?r)) = min 20 (45 - nat ((p - 1) * 20))"
      by (simp only: sl) (simp add: a)
    ultimately show "totalPage (data ?r) = Fin 3
              \<and> (p = 1 \<longrightarrow> length (list (data ?r)) = 20)
              \<and> (p = 3 \<longrightarrow> length (list (data ?r)) = 5)
              \<and> (p = 4 \<longrightarrow> list (data ?r) = [])"
      by auto
  qed
  have beyond: "totalPage (data ?r) = Fin q \<and> q < p \<longrightarrow> list (data ?r) = []"
  proof
    assume a: "totalPage (data ?r) = Fin q \<and> q < p"
    then have "\<lceil>real (length ?fd) / real_of_int pageSize\<rceil> \<le> p - 1"
      using tp by simp
    then have "real (length ?fd) / real_of_int pageSize \<le> real_of_int (p - 1)"
      by (simp only: ceiling_le_iff)
    then have "real (length ?fd) \<le> real_of_int (p - 1) * real_of_int pageSize"
      using assms(2) by (simp add: pos_divide_le_eq)
    then have "int (length ?fd) \<le> (p - 1) * pageSize"
      by (metis of_int_le_iff of_int_mult of_int_of_nat_eq)
    then show "list (data ?r) = []"
      using lo by (simp add: sl)
  qed
  show ?thesis
    unfolding Let_def using r sl tp inst beyond by simp
qed

text \<open>
  Claim C1 on the catalog of 45 items, filter \<^verbatim>\<open>unsplash\<close>, page size 20, page 3.
\<close>

theorem getWallpaperList_page_witness:
  "fst (loadWallpaperData 0 (FetchResponse 200 (Some unsplash45)) coldCatalogCache)
     = Inr unsplash45
   \<and> (0::int) < 20
   \<and> parseInt (pageOrDefault (Some ''3'')) = Some 3
   \<and> code (fst (getWallpaperList (Some ''3'') (Some ''unsplash'') 20 0
         (FetchResponse 200 (Some unsplash45)) coldCatalogCache)) = 200
   \<and> totalPage (data (fst (getWallpaperList (Some ''3'') (Some ''unsplash'') 20 0
         (FetchResponse 200 (Some unsplash45)) coldCatalogCache))) = Fin 3
   \<and> length (list (data (fst (getWallpaperList (Some ''3'') (Some ''unsplash'') 20 0
         (FetchResponse 200 (Some unsplash45)) coldCatalogCache)))) = 5"
proof -
  have len: "length unsplash45 = 45" by (simp add: unsplash45_def)
  show ?thesis
    using getWallpaperList_page [OF load_cold [of 0 unsplash45] _ parseInt_3, where pageSize = 20
        and src = "Some ''unsplash''"]
    by (simp add: Let_def filter_unsplash45 len load_cold parseInt_3)
qed

text \<open>
  Claim C6. When the catalog is loaded and the page string (or the default \<^verbatim>\<open>'1'\<close>
  that stands in for an undefined or empty one) does not parse to an integer, or parses
  to an integer below 1, \<^verbatim>\<open>getWallpaperList\<close> returns code 400, the message
  \<^verbatim>\<open>Invalid page number\<close> and the data \<open>list = []\<close>, \<open>total = 0\<close>, \<open>page = 1\<close>,
  \<open>totalPage = 0\<close>.
\<close>

theorem getWallpaperList_invalid_page:
  assumes "fst (loadWallpaperData now fetched st) = Inr catalog"
    and "parseInt (pageOrDefault pg) = None
         \<or> (\<exists>p. parseInt (pageOrDefault pg) = Some p \<and> p < 1)"
  shows "fst (getWallpaperList pg src pageSize now fetched st) =
           \<lparr> code = 400,
             data = \<lparr> list = [], total = 0, page = 1, totalPage = Fin 0 \<rparr>,
             message = ''Invalid page number'' \<rparr>"
  using assms by (auto simp add: getWallpaperList_loaded emptyListResult_def)

text \<open>
  Claim C6 on the pages \<^verbatim>\<open>abc\<close> and \<^verbatim>\<open>0\<close>.
\<close>

theorem getWallpaperList_invalid_page_witness:
  "parseInt (pageOrDefault (Some ''abc'')) = None
   \<and> fst (getWallpaperList (Some ''abc'') None 20 0
         (FetchResponse 200 (Some unsplash45)) coldCatalogCache)
       = \<lparr> code = 400,
           data = \<lparr> list = [], total = 0, page = 1, totalPage = Fin 0 \<rparr>,
           message = ''Invalid page number'' \<rparr>
   \<and> parseInt (pageOrDefault (Some ''0'')) = Some 0
   \<and> fst (getWallpaperList (Some ''0'') None 20 0
         (FetchResponse 200 (Some unsplash45)) coldCatalogCache)
       = \<lparr> code = 400,
           data = \<lparr> list = [], total = 0, page = 1, totalPage = Fin 0 \<rparr>,
           message = ''Invalid page number'' \<rparr>"
  using getWallpaperList_invalid_page [OF load_cold [of 0 unsplash45], where pg = "Some ''abc''" and src = None
      and pageSize = 20]
    getWallpaperList_invalid_page [OF load_cold [of 0 unsplash45], where pg = "Some ''0''" and src = None
      and pageSize = 20]
  by (simp add: parseInt_abc parseInt_0)

text \<open>
  Claim C10. A page string that begins with digits whose value is \<open>p \<ge> 1\<close> and goes
  on with a character that is no digit is accepted: the call returns code 200 and the
  page \<open>p\<close>, the very result of the call with the digits alone.
\<close>

theorem getWallpaperList_digits_prefix:
  assumes "fst (loadWallpaperData now fetched st) = Inr catalog"
    and "ds \<noteq> []" and "list_all isDigit ds"
    and "\<not> isDigit c"
    and "1 \<le> digitsValue ds"
  shows "let r = fst (getWallpaperList (Some (ds @ c # rest)) src pageSize now fetched st)
         in parseInt ds = Some (digitsValue ds)
          \<and> code r = 200
          \<and> page (data r) = digitsValue ds
          \<and> fst (getWallpaperList (Some ds) src pageSize now fetched st) = r"
proof -
  have a: "parseInt (ds @ c # rest) = Some (digitsValue ds)"
    using assms(2,3,4) by (simp add: parseInt_digits_prefix)
  have b: "parseInt ds = Some (digitsValue ds)"
    using assms(2,3) parseInt_digits_prefix [of ds "[]"] by simp
  have d: "pageOrDefault (Some (ds @ c # rest)) = ds @ c # rest" "pageOrDefault (Some ds) = ds"
    using assms(2) by (simp_all add: pageOrDefault_def)
  show ?thesis
    using assms(1,5) by (simp add: Let_def getWallpaperList_loaded a b d)
qed

text \<open>
  Claim C10 on the page \<^verbatim>\<open>2abc\<close>.
\<close>

theorem getWallpaperList_digits_prefix_witness:
  "list_all isDigit ''2'' \<and> \<not> isDigit CHR ''a'' \<and> digitsValue ''2'' = 2
   \<and> code (fst (getWallpaperList (Some ''2abc'') None 20 0
         (FetchResponse 200 (Some unsplash45)) coldCatalogCache)) = 200
   \<and> page (data (fst (getWallpaperList (Some ''2abc'') None 20 0
         (FetchResponse 200 (Some unsplash45)) coldCatalogCache))) = 2"
  using getWallpaperList_digits_prefix [OF load_cold [of 0 unsplash45], where ds = "''2''" and c = "CHR ''a''"
      and rest = "''bc''" and src = None and pageSize = 20] digits_2
  by (simp add: Let_def)

subsection \<open>Sources\<close>

lemma setValues_fold:
  "set (foldl (\<lambda>acc x. if x \<in> set acc then acc else acc @ [x]) acc xs) = set acc \<union> set xs
   \<and> (distinct acc \<longrightarrow> distinct (foldl (\<lambda>acc x. if x \<in> set acc then acc else acc @ [x]) acc xs))"
  by (induction xs arbitrary: acc) auto

lemma set_setValues: "set (setValues xs) = set xs"
  using setValues_fold [of "[]" xs] by (simp add: setValues_def)

lemma distinct_setValues: "distinct (setValues xs)"
  using setValues_fold [of "[]" xs] by (simp add: setValues_def)

lemma sort_setValues: "sort (setValues xs) = sorted_list_of_set (set xs)"
proof -
  have "sorted_list_of_set (set (sort (setValues xs))) = sort (setValues xs)"
    by (rule sorted_list_of_set.idem_if_sorted_distinct) (simp_all add: distinct_setValues)
  then show ?thesis by (simp add: set_setValues)
qed

text \<open>
  Claim C8, as stated, fails in its example: the catalog with the sources
  \<^verbatim>\<open>Unsplash\<close>, \<^verbatim>\<open>unsplash\<close> and \<^verbatim>\<open>Pexels\<close> has three distinct sources, and
  the result is not the list of two.
\<close>

theorem getAvailableSources_quirk_counterexample:
  "fst (getAvailableSources 0 (FetchResponse 200 (Some quirkCatalog)) coldCatalogCache)
     \<noteq> Inr [''Pexels'', ''Unsplash'']"
  by (simp add: getAvailableSources_def loadWallpaperData_def coldCatalogCache_def
      responseOk_def quirkCatalog_def sourceOnlyItem_def setValues_def)

text \<open>
  Claim C8, amended. \<^verbatim>\<open>getAvailableSources\<close> returns the sorted list of the
  distinct source values of the loaded catalog, the empty list when the load fails, and
  never throws; on the catalog of the example it returns \<^verbatim>\<open>Pexels\<close>,
  \<^verbatim>\<open>Unsplash\<close>, \<^verbatim>\<open>unsplash\<close>.
\<close>

theorem getAvailableSources_sorted_distinct:
  "(\<forall>catalog. fst (loadWallpaperData now fetched st) = Inr catalog \<longrightarrow>
      fst (getAvailableSources now fetched st)
        = Inr (sorted_list_of_set (source ` set catalog)))
   \<and> (\<forall>err. fst (loadWallpaperData now fetched st) = Inl err \<longrightarrow>
      fst (getAvailableSources now fetched st) = Inr [])
   \<and> (\<exists>r. fst (getAvailableSources now fetched st) = Inr r)
   \<and> fst (getAvailableSources 0 (FetchResponse 200 (Some quirkCatalog)) coldCatalogCache)
       = Inr [''Pexels'', ''Unsplash'', ''unsplash'']"
proof -
  have a: "fst (getAvailableSources now fetched st) =
      (case fst (loadWallpaperData now fetched st) of
         Inl err \<Rightarrow> Inr []
       | Inr catalog \<Rightarrow> Inr (sorted_list_of_set (source ` set catalog)))" for now fetched st
    by (cases "loadWallpaperData now fetched st")
      (simp add: getAvailableSources_def Let_def sort_setValues split: sum.splits)
  have b: "fst (getAvailableSources 0 (FetchResponse 200 (Some quirkCatalog)) coldCatalogCache)
       = Inr [''Pexels'', ''Unsplash'', ''unsplash'']"
    by (simp add: getAvailableSources_def loadWallpaperData_def coldCatalogCache_def
        responseOk_def quirkCatalog_def sourceOnlyItem_def setValues_def)
  show ?thesis
    using b by (auto simp add: a split: sum.splits)
qed

text \<open>
  The amended claim C8 on the catalog of the example and on a fetch that is rejected.
\<close>

theorem getAvailableSources_sorted_distinct_witness:
  "fst (loadWallpaperData 0 (FetchResponse 200 (Some quirkCatalog)) coldCatalogCache)
     = Inr quirkCatalog
   \<and> fst (getAvailableSources 0 (FetchResponse 200 (Some quirkCatalog)) coldCatalogCache)
     = Inr (sorted_list_of_set (source ` set quirkCatalog))
   \<and> fst (loadWallpaperData 0 FetchRejected coldCatalogCache)
     = Inl (Error ''Failed to load wallpaper data'')
   \<and> fst (getAvailableSources 0 FetchRejected coldCatalogCache) = Inr []"
proof -
  have f: "fst (loadWallpaperData 0 FetchRejected coldCatalogCache)
     = Inl (Error ''Failed to load wallpaper data'')"
    by (simp add: loadWallpaperData_def coldCatalogCache_def)
  show ?thesis
    using getAvailableSources_sorted_distinct [of 0 "FetchResponse 200 (Some quirkCatalog)" coldCatalogCache]
      getAvailableSources_sorted_distinct [of 0 FetchRejected coldCatalogCache]
      load_cold [of 0 quirkCatalog] f
    by blast
qed

subsection \<open>The Bing feed\<close>

text \<open>
  Claim C9, as stated, fails: with a feed that is fetched and has no entry, the call
  returns the result of code 500, so that this result is not produced on a fetch failure
  only, and the call does not end in an error.
\<close>

theorem getBingWallpaperList_empty_feed_counterexample:
  "fst (loadBingWallpaperData 0 (FetchResponse 200 (Some (Some []))) coldBingCache) = Inr []
   \<and> fst (getBingWallpaperList ''2026-01-01T00:00:00.000Z'' 0
           (FetchResponse 200 (Some (Some []))) coldBingCache)
       = Inr (bingFailure ''2026-01-01T00:00:00.000Z'')"
  by (simp add: getBingWallpaperList_def loadBingWallpaperData_def bingTryBlock_def
      coldBingCache_def responseOk_def bingFailure_def)

text \<open>
  Claim C9, amended. When the feed is fetched with no entry, \<^verbatim>\<open>bingData[0].url\<close>
  throws a \<^verbatim>\<open>TypeError\<close> inside the \<^verbatim>\<open>try\<close> block and the call returns the
  empty result of code 500, the same as on a fetch failure; code 200 is returned when
  the feed has a first entry; the call never throws.
\<close>

theorem getBingWallpaperList_results:
  "(fst (loadBingWallpaperData now fetched st) = Inr [] \<longrightarrow>
      (\<exists>msg. bingTryBlock isoNow (fst (loadBingWallpaperData now fetched st)) = Inl (TypeError msg))
      \<and> fst (getBingWallpaperList isoNow now fetched st) = Inr (bingFailure isoNow))
   \<and> (\<forall>err. fst (loadBingWallpaperData now fetched st) = Inl err \<longrightarrow>
      fst (getBingWallpaperList isoNow now fetched st) = Inr (bingFailure isoNow))
   \<and> (\<forall>first rest. fst (loadBingWallpaperData now fetched st) = Inr (first # rest) \<longrightarrow>
      (\<exists>r. fst (getBingWallpaperList isoNow now fetched st) = Inr r \<and> code r = 200
         \<and> bingUrl (data r) = ''https://www.bing.com'' @ url first
         \<and> bingList (data r) = first # rest \<and> bingTotal (data r) = length (first # rest)))
   \<and> (\<exists>r. fst (getBingWallpaperList isoNow now fetched st) = Inr r)"
  by (cases "loadBingWallpaperData now fetched st")
    (auto simp add: getBingWallpaperList_def bingTryBlock_def bingFailure_def
      split: sum.splits list.splits)

text \<open>
  The amended claim C9 on an empty feed and on a fetch that is rejected.
\<close>

theorem getBingWallpaperList_results_witness:
  "fst (loadBingWallpaperData 0 (FetchResponse 200 (Some (Some []))) coldBingCache) = Inr []
   \<and> fst (getBingWallpaperList ''2026-01-01T00:00:00.000Z'' 0
           (FetchResponse 200 (Some (Some []))) coldBingCache)
       = Inr (bingFailure ''2026-01-01T00:00:00.000Z'')
   \<and> fst (loadBingWallpaperData 0 FetchRejected coldBingCache)
       = Inl (Error ''Failed to load Bing wallpaper data'')
   \<and> fst (getBingWallpaperList ''2026-01-01T00:00:00.000Z'' 0 FetchRejected coldBingCache)
       = Inr (bingFailure ''2026-01-01T00:00:00.000Z'')"
proof -
  have e: "fst (loadBingWallpaperData 0 (FetchResponse 200 (Some (Some []))) coldBingCache) = Inr []"
    by (simp add: loadBingWallpaperData_def coldBingCache_def responseOk_def)
  have f: "fst (loadBingWallpaperData 0 FetchRejected coldBingCache)
       = Inl (Error ''Failed to load Bing wallpaper data'')"
    by (simp add: loadBingWallpaperData_def coldBingCache_def)
  show ?thesis
    using getBingWallpaperList_results [of 0 "FetchResponse 200 (Some (Some []))" coldBingCache
        "''2026-01-01T00:00:00.000Z''"]
      getBingWallpaperList_results [of 0 FetchRejected coldBingCache "''2026-01-01T00:00:00.000Z''"]
      e f
    by blast
qed

section \<open>Properties of the URL utilities\<close>

lemma endsWith_toLowerCase:
  "endsWith (toLowerCase s) ext = endsWithIgnoringCase s ext"
proof
  assume a: "endsWith (toLowerCase s) ext"
  let ?n = "length s - length ext"
  have "s = take ?n s @ drop ?n s" by simp
  moreover have "toLowerCase (drop ?n s) = ext"
    using a by (simp add: endsWith_def toLowerCase_def drop_map)
  ultimately show "endsWithIgnoringCase s ext"
    unfolding endsWithIgnoringCase_def by blast
next
  assume "endsWithIgnoringCase s ext"
  then obtain stem suffix where "s = stem @ suffix" "toLowerCase suffix = ext"
    unfolding endsWithIgnoringCase_def by blast
  then show "endsWith (toLowerCase s) ext"
    by (auto simp add: endsWith_def toLowerCase_def)
qed

text \<open>
  Claim C5. \<^verbatim>\<open>validateImageUrl\<close> returns \<open>valid = true\<close> exactly when the URL
  parses, its protocol is \<^verbatim>\<open>http:\<close> or \<^verbatim>\<open>https:\<close> and its path ends, up to case,
  in one of the six extensions. A path without such an extension is rejected whatever
  the protocol, and another protocol is rejected with the reason
  \<^verbatim>\<open>Invalid protocol\<close> whatever the extension: the protocol is checked first.
\<close>

theorem validateImageUrl_valid_iff:
  "(valid (validateImageUrl parse u) \<longleftrightarrow>
      (\<exists>urlObj. parse u = Some urlObj
         \<and> (protocol urlObj = ''http:'' \<or> protocol urlObj = ''https:'')
         \<and> (\<exists>ext \<in> set [''.jpg'', ''.jpeg'', ''.png'', ''.webp'', ''.gif'', ''.bmp''].
               endsWithIgnoringCase (pathname urlObj) ext)))
   \<and> (\<forall>urlObj. parse u = Some urlObj
         \<and> protocol urlObj \<noteq> ''http:'' \<and> protocol urlObj \<noteq> ''https:'' \<longrightarrow>
         validateImageUrl parse u = \<lparr> valid = False, reason = Some ''Invalid protocol'' \<rparr>)
   \<and> (\<forall>urlObj. parse u = Some urlObj
         \<and> (protocol urlObj = ''http:'' \<or> protocol urlObj = ''https:'')
         \<and> \<not> (\<exists>ext \<in> set [''.jpg'', ''.jpeg'', ''.png'', ''.webp'', ''.gif'', ''.bmp''].
                 endsWithIgnoringCase (pathname urlObj) ext) \<longrightarrow>
         validateImageUrl parse u = \<lparr> valid = False, reason = Some ''Invalid image extension'' \<rparr>)
   \<and> (\<forall>urlObj. parse u = Some urlObj
         \<and> \<not> (\<exists>ext \<in> set [''.jpg'', ''.jpeg'', ''.png'', ''.webp'', ''.gif'', ''.bmp''].
                 endsWithIgnoringCase (pathname urlObj) ext) \<longrightarrow>
         \<not> valid (validateImageUrl parse u))
   \<and> (parse u = None \<longrightarrow>
         validateImageUrl parse u = \<lparr> valid = False, reason = Some ''Invalid URL format'' \<rparr>)"
  by (cases "parse u")
    (auto simp add: validateImageUrl_def validExtensions_def endsWith_toLowerCase Let_def)

text \<open>
  Evaluations of the parser used by the examples.
\<close>

lemma parse_ftp:
  "newURL ''ftp://example.com/a.txt'' =
     Some \<lparr> protocol = ''ftp:'', hostname = ''example.com'', pathname = ''/a.txt'',
            search = [], hash = [] \<rparr>"
  by code_simp

lemma parse_jpg:
  "newURL ''https://example.com/a/B.JPG'' =
     Some \<lparr> protocol = ''https:'', hostname = ''example.com'', pathname = ''/a/B.JPG'',
            search = [], hash = [] \<rparr>"
  by code_simp

lemma valid_jpg: "valid (validateImageUrl newURL ''https://example.com/a/B.JPG'')"
  by code_simp

text \<open>
  Claim C5 on an ftp URL of a text file, where both checks fail, and on an https URL
  of a file \<^verbatim>\<open>B.JPG\<close>.
\<close>

theorem validateImageUrl_valid_iff_witness:
  "newURL ''ftp://example.com/a.txt'' =
     Some \<lparr> protocol = ''ftp:'', hostname = ''example.com'', pathname = ''/a.txt'',
            search = [], hash = [] \<rparr>
   \<and> validateImageUrl newURL ''ftp://example.com/a.txt''
       = \<lparr> valid = False, reason = Some ''Invalid protocol'' \<rparr>
   \<and> valid (validateImageUrl newURL ''https://example.com/a/B.JPG'')
   \<and> (\<exists>ext \<in> set [''.jpg'', ''.jpeg'', ''.png'', ''.webp'', ''.gif'', ''.bmp''].
         endsWithIgnoringCase ''/a/B.JPG'' ext)"
proof -
  have a: "validateImageUrl newURL ''ftp://example.com/a.txt''
       = \<lparr> valid = False, reason = Some ''Invalid protocol'' \<rparr>"
    using validateImageUrl_valid_iff [of newURL "''ftp://example.com/a.txt''"]
    by (simp add: parse_ftp)
  have b: "\<exists>ext \<in> set [''.jpg'', ''.jpeg'', ''.png'', ''.webp'', ''.gif'', ''.bmp''].
         endsWithIgnoringCase ''/a/B.JPG'' ext"
    using validateImageUrl_valid_iff [of newURL "''https://example.com/a/B.JPG''"] valid_jpg
    by (simp add: parse_jpg)
  show ?thesis
    using a b parse_ftp valid_jpg by blast
qed

lemma matchAfter_literal:
  assumes "takeWhile (\<lambda>x. \<not> isLineTerminator x) rest \<noteq> []"
  shows "matchAfter lit (lit @ rest) = Some (takeWhile (\<lambda>x. \<not> isLineTerminator x) rest)"
proof -
  from assms have "lit @ rest \<noteq> []" by auto
  then obtain c cs where cs: "lit @ rest = c # cs" by (cases "lit @ rest") auto
  have "startsWith (lit @ rest) lit" by (simp add: startsWith_def)
  moreover have "drop (length lit) (lit @ rest) = rest" by simp
  ultimately show ?thesis
    using assms unfolding cs [symmetric]
    by (metis cs matchAfter.simps(2))
qed

lemma matchAfter_whole:
  assumes "p \<noteq> []" "list_all (\<lambda>c. \<not> isLineTerminator c) p"
  shows "matchAfter lit (lit @ p) = Some p"
proof -
  have "takeWhile (\<lambda>x. \<not> isLineTerminator x) p = p"
    using assms(2) by (simp add: list_all_iff)
  with assms(1) matchAfter_literal [of p lit] show ?thesis by simp
qed

lemma convertToProxyUrl_Some:
  "parse u = Some uo \<Longrightarrow> hostname uo = originalDomain config \<Longrightarrow>
   matchAfter ''/wallpaper/'' (pathname uo) = Some p \<Longrightarrow>
   convertToProxyUrl parse config u = Some (baseUrl config @ proxyPath config @ ''/'' @ p)"
  by (simp add: convertToProxyUrl_def)

lemma convertToOriginalUrl_Some:
  "parse pu = Some up \<Longrightarrow> list_all (\<lambda>c. \<not> isSyntaxCharacter c) (proxyPath config) \<Longrightarrow>
   matchAfter (proxyPath config @ ''/'') (pathname up) = Some p \<Longrightarrow>
   convertToOriginalUrl parse regExp config pu
     = Some (''https://'' @ originalDomain config @ ''/wallpaper/'' @ p)"
  by (simp add: convertToOriginalUrl_def proxyPathMatch_def)

text \<open>
  Claim C7, as stated, fails: the parser removes the dot segments of a path, so that a
  URL under the configured domain with the path \<^verbatim>\<open>a/../b.jpg\<close> below
  \<^verbatim>\<open>/wallpaper/\<close> comes back as another URL.
\<close>

theorem round_trip_dot_segment_counterexample:
  "roundTrip newURL noRegExp DEFAULT_PROXY_CONFIG
       ''https://infinitypro-img.infinitynewtab.com/wallpaper/a/../b.jpg''
     = Some ''https://infinitypro-img.infinitynewtab.com/wallpaper/b.jpg''
   \<and> roundTrip newURL noRegExp DEFAULT_PROXY_CONFIG
       ''https://infinitypro-img.infinitynewtab.com/wallpaper/a/../b.jpg''
     \<noteq> Some ''https://infinitypro-img.infinitynewtab.com/wallpaper/a/../b.jpg''"
  by code_simp

text \<open>
  Claim C7, amended. Let the proxy path of the configuration have no character with a
  meaning in a pattern, and let \<open>u\<close> be \<^verbatim>\<open>https://<originalDomain>/wallpaper/<p>\<close>
  with a non-empty \<open>p\<close> free of line terminators. If the parser reads from \<open>u\<close> the
  host name \<^verbatim>\<open><originalDomain>\<close> and the path \<^verbatim>\<open>/wallpaper/<p>\<close> as written, and
  from the proxy URL \<^verbatim>\<open><baseUrl><proxyPath>/<p>\<close> the path \<^verbatim>\<open><proxyPath>/<p>\<close>, then
  \<^verbatim>\<open>convertToOriginalUrl(convertToProxyUrl(u))\<close> is \<open>u\<close>. For every URL that does
  not parse to the configured host name, \<^verbatim>\<open>convertToProxyUrl\<close> returns null.
\<close>

theorem convertToProxyUrl_round_trip:
  "(\<forall>p uo up.
       u = ''https://'' @ originalDomain config @ ''/wallpaper/'' @ p
       \<and> p \<noteq> [] \<and> list_all (\<lambda>c. \<not> isLineTerminator c) p
       \<and> list_all (\<lambda>c. \<not> isSyntaxCharacter c) (proxyPath config)
       \<and> parse u = Some uo
       \<and> hostname uo = originalDomain config \<and> pathname uo = ''/wallpaper/'' @ p
       \<and> parse (baseUrl config @ proxyPath config @ ''/'' @ p) = Some up
       \<and> pathname up = proxyPath config @ ''/'' @ p
       \<longrightarrow> convertToProxyUrl parse config u = Some (baseUrl config @ proxyPath config @ ''/'' @ p)
         \<and> roundTrip parse regExp config u = Some u)
   \<and> ((\<forall>uo. parse u = Some uo \<longrightarrow> hostname uo \<noteq> originalDomain config)
       \<longrightarrow> convertToProxyUrl parse config u = None)"
proof (intro conjI allI impI)
  fix p uo up
  assume a: "u = ''https://'' @ originalDomain config @ ''/wallpaper/'' @ p
       \<and> p \<noteq> [] \<and> list_all (\<lambda>c. \<not> isLineTerminator c) p
       \<and> list_all (\<lambda>c. \<not> isSyntaxCharacter c) (proxyPath config)
       \<and> parse u = Some uo
       \<and> hostname uo = originalDomain config \<and> pathname uo = ''/wallpaper/'' @ p
       \<and> parse (baseUrl config @ proxyPath config @ ''/'' @ p) = Some up
       \<and> pathname up = proxyPath config @ ''/'' @ p"
  then have u: "u = ''https://'' @ originalDomain config @ ''/wallpaper/'' @ p"
    and p: "p \<noteq> []" "list_all (\<lambda>c. \<not> isLineTerminator c) p"
    and lit: "list_all (\<lambda>c. \<not> isSyntaxCharacter c) (proxyPath config)"
    and uo: "parse u = Some uo" "hostname uo = originalDomain config"
      "pathname uo = ''/wallpaper/'' @ p"
    and up: "parse (baseUrl config @ proxyPath config @ ''/'' @ p) = Some up"
      "pathname up = proxyPath config @ ''/'' @ p"
    by blast+
  have m1: "matchAfter ''/wallpaper/'' (pathname uo) = Some p"
    unfolding uo(3) using p by (rule matchAfter_whole)
  have "matchAfter (proxyPath config @ ''/'') ((proxyPath config @ ''/'') @ p) = Some p"
    using p by (rule matchAfter_whole)
  then have m2: "matchAfter (proxyPath config @ ''/'') (pathname up) = Some p"
    unfolding up(2) by (simp only: append_assoc)
  show c1: "convertToProxyUrl parse config u = Some (baseUrl config @ proxyPath config @ ''/'' @ p)"
    using uo(1,2) m1 by (rule convertToProxyUrl_Some)
  have "convertToOriginalUrl parse regExp config (baseUrl config @ proxyPath config @ ''/'' @ p)
          = Some (''https://'' @ originalDomain config @ ''/wallpaper/'' @ p)"
    using up(1) lit m2 by (rule convertToOriginalUrl_Some)
  then show "roundTrip parse regExp config u = Some u"
    unfolding roundTrip_def c1 u [symmetric] by simp
next
  assume "\<forall>uo. parse u = Some uo \<longrightarrow> hostname uo \<noteq> originalDomain config"
  then show "convertToProxyUrl parse config u = None"
    by (cases "parse u") (simp_all add: convertToProxyUrl_def)
qed

lemma sample_wallpaper_facts:
  "sampleWallpaperUrl
     = ''https://'' @ originalDomain DEFAULT_PROXY_CONFIG @ ''/wallpaper/'' @ sampleWallpaperPath"
  "sampleWallpaperPath \<noteq> []"
  "list_all (\<lambda>c. \<not> isLineTerminator c) sampleWallpaperPath"
  "list_all (\<lambda>c. \<not> isSyntaxCharacter c) (proxyPath DEFAULT_PROXY_CONFIG)"
  "baseUrl DEFAULT_PROXY_CONFIG @ proxyPath DEFAULT_PROXY_CONFIG @ ''/'' @ sampleWallpaperPath
     = sampleProxyUrl"
  by code_simp+

lemma sample_wallpaper_parse:
  "newURL sampleWallpaperUrl =
     Some \<lparr> protocol = ''https:'', hostname = originalDomain DEFAULT_PROXY_CONFIG,
            pathname = ''/wallpaper/'' @ sampleWallpaperPath, search = [], hash = [] \<rparr>"
  "newURL sampleProxyUrl =
     Some \<lparr> protocol = ''https:'', hostname = ''your-domain.vercel.app'',
            pathname = proxyPath DEFAULT_PROXY_CONFIG @ ''/'' @ sampleWallpaperPath,
            search = [], hash = [] \<rparr>"
  by code_simp+

lemma sample_other_host:
  "newURL ''https://example.com/wallpaper/1.jpg'' =
     Some \<lparr> protocol = ''https:'', hostname = ''example.com'',
            pathname = ''/wallpaper/1.jpg'', search = [], hash = [] \<rparr>
   \<and> ''example.com'' \<noteq> originalDomain DEFAULT_PROXY_CONFIG"
  by code_simp

text \<open>
  The amended claim C7 on the default configuration, for a URL under the configured
  domain and for one under another domain.
\<close>

theorem convertToProxyUrl_round_trip_witness:
  "newURL sampleWallpaperUrl =
     Some \<lparr> protocol = ''https:'', hostname = originalDomain DEFAULT_PROXY_CONFIG,
            pathname = ''/wallpaper/'' @ sampleWallpaperPath, search = [], hash = [] \<rparr>
   \<and> convertToProxyUrl newURL DEFAULT_PROXY_CONFIG sampleWallpaperUrl = Some sampleProxyUrl
   \<and> roundTrip newURL noRegExp DEFAULT_PROXY_CONFIG sampleWallpaperUrl = Some sampleWallpaperUrl
   \<and> convertToProxyUrl newURL DEFAULT_PROXY_CONFIG ''https://example.com/wallpaper/1.jpg'' = None"
proof -
  define uo where "uo = \<lparr> protocol = ''https:'', hostname = originalDomain DEFAULT_PROXY_CONFIG,
            pathname = ''/wallpaper/'' @ sampleWallpaperPath, search = [], hash = [] \<rparr>"
  define up where "up = \<lparr> protocol = ''https:'', hostname = ''your-domain.vercel.app'',
            pathname = proxyPath DEFAULT_PROXY_CONFIG @ ''/'' @ sampleWallpaperPath,
            search = [], hash = [] \<rparr>"
  have sel: "hostname uo = originalDomain DEFAULT_PROXY_CONFIG"
    "pathname uo = ''/wallpaper/'' @ sampleWallpaperPath"
    "pathname up = proxyPath DEFAULT_PROXY_CONFIG @ ''/'' @ sampleWallpaperPath"
    by (simp_all only: uo_def up_def URL.select_convs)
  have prs: "newURL sampleWallpaperUrl = Some uo"
    "newURL (baseUrl DEFAULT_PROXY_CONFIG @ proxyPath DEFAULT_PROXY_CONFIG @ ''/''
       @ sampleWallpaperPath) = Some up"
    by (simp_all only: uo_def up_def sample_wallpaper_parse sample_wallpaper_facts(5))
  have h: "sampleWallpaperUrl
       = ''https://'' @ originalDomain DEFAULT_PROXY_CONFIG @ ''/wallpaper/'' @ sampleWallpaperPath
     \<and> sampleWallpaperPath \<noteq> []
     \<and> list_all (\<lambda>c. \<not> isLineTerminator c) sampleWallpaperPath
     \<and> list_all (\<lambda>c. \<not> isSyntaxCharacter c) (proxyPath DEFAULT_PROXY_CONFIG)
     \<and> newURL sampleWallpaperUrl = Some uo
     \<and> hostname uo = originalDomain DEFAULT_PROXY_CONFIG
     \<and> pathname uo = ''/wallpaper/'' @ sampleWallpaperPath
     \<and> newURL (baseUrl DEFAULT_PROXY_CONFIG @ proxyPath DEFAULT_PROXY_CONFIG @ ''/''
          @ sampleWallpaperPath) = Some up
     \<and> pathname up = proxyPath DEFAULT_PROXY_CONFIG @ ''/'' @ sampleWallpaperPath"
    using sample_wallpaper_facts(1-4) sel prs by (intro conjI)
  have r: "convertToProxyUrl newURL DEFAULT_PROXY_CONFIG sampleWallpaperUrl
          = Some (baseUrl DEFAULT_PROXY_CONFIG @ proxyPath DEFAULT_PROXY_CONFIG @ ''/''
                    @ sampleWallpaperPath)
        \<and> roundTrip newURL noRegExp DEFAULT_PROXY_CONFIG sampleWallpaperUrl
          = Some sampleWallpaperUrl"
    using convertToProxyUrl_round_trip
        [of sampleWallpaperUrl DEFAULT_PROXY_CONFIG newURL noRegExp, THEN conjunct1,
         rule_format, OF h] .
  have o: "convertToProxyUrl newURL DEFAULT_PROXY_CONFIG
      ''https://example.com/wallpaper/1.jpg'' = None"
    using convertToProxyUrl_round_trip
        [of "''https://example.com/wallpaper/1.jpg''" DEFAULT_PROXY_CONFIG newURL noRegExp,
         THEN conjunct2]
      sample_other_host
    by auto
  show ?thesis
    using r o sample_wallpaper_parse(1) by (simp only: sample_wallpaper_facts(5) simp_thms)
qed

section \<open>Properties of the image proxy handler\<close>

lemma proxyTryBlock_throw_no_call:
  "fst (proxyTryBlock env req) = Inl err \<Longrightarrow> snd (proxyTryBlock env req) = []"
  by (auto simp add: proxyTryBlock_def Let_def
      split: if_splits FetchResult.splits option.splits)

lemma proxyTryBlock_return_one_call:
  "fst (proxyTryBlock env req) = Inr r \<Longrightarrow> \<exists>c. snd (proxyTryBlock env req) = [c]"
  by (auto simp add: proxyTryBlock_def Let_def
      split: if_splits FetchResult.splits option.splits)

lemma proxyHandler_calls:
  "snd (proxyHandler env req) =
     (case fst (proxyTryBlock env req) of
        Inr r \<Rightarrow> snd (proxyTryBlock env req)
      | Inl err \<Rightarrow> snd (proxyTryBlock env req) @ [statsCall env False False])"
  by (cases "proxyTryBlock env req") (simp add: proxyHandler_def split: sum.splits)

lemma proxyTryBlock_empty_path:
  "requestPath req = [] \<Longrightarrow> snd (proxyTryBlock env req) = [statsCall env False False]
     \<and> (\<exists>r. fst (proxyTryBlock env req) = Inr r)"
  by (simp add: proxyTryBlock_def)

lemma proxyTryBlock_invalid:
  "requestPath req \<noteq> [] \<Longrightarrow>
   \<not> valid (validateImageUrl (urlParser env) (originalUrlOf req)) \<Longrightarrow>
   snd (proxyTryBlock env req) = [statsCall env False False]
     \<and> (\<exists>r. fst (proxyTryBlock env req) = Inr r)"
  by (simp add: proxyTryBlock_def originalUrlOf_def Let_def)

lemma proxyTryBlock_fetched:
  assumes "requestPath req \<noteq> []"
    and "valid (validateImageUrl (urlParser env) (originalUrlOf req))"
    and "fetchOrigin env (originalUrlOf req) (fetchHeadersOf req) = FetchResolves response"
  shows "proxyTryBlock env req =
     (if originStatus response = 304
      then (Inr \<lparr> httpStatus = 304,
                  httpHeaders =
                    [(''Cache-Control'', ''public, max-age=31536000, immutable''),
                     (''X-Proxy-Source'', ''infinity-wallpaper-proxy''),
                     (''X-Cache-Status'', ''not-modified'')],
                  httpBody = NoBody \<rparr>,
            [statsCall env True True])
      else if \<not> responseOk (originStatus response)
      then (Inr (jsonResponse
                  [(''error'', JString ''Image not found''),
                   (''status'', JNumber (int (originStatus response))),
                   (''originalUrl'', JString (originalUrlOf req))]
                  (if 400 \<le> originStatus response \<and> originStatus response < 600
                   then originStatus response else 404)),
            [statsCall env False False])
      else
        (case originBody response of
           None \<Rightarrow> (Inl (TypeError ''Failed to read the response body''), [])
         | Some imageBuffer \<Rightarrow>
             if \<not> list_all (\<lambda>h. headerValueOk env (snd h))
                    (imageHeaders env (originalUrlOf req) response)
             then (Inl (TypeError ''Invalid header value''), [])
             else (Inr \<lparr> httpStatus = 200,
                         httpHeaders = imageHeaders env (originalUrlOf req) response,
                         httpBody = BytesBody imageBuffer \<rparr>,
                   [statsCall env True False])))"
  using assms
  by (simp add: proxyTryBlock_def originalUrlOf_def Let_def split: option.splits)

text \<open>
  The handler passes \<open>fromCache = true\<close> together with \<open>success = true\<close> only, so
  that a run of it keeps the cache hits below the successful requests.
\<close>

lemma proxyHandler_calls_consistent:
  "list_all (\<lambda>c. if callFromCache c then callSuccess c else True) (snd (proxyHandler env req))"
  by (auto simp add: proxyHandler_calls proxyTryBlock_def Let_def statsCall_def
      split: sum.splits if_splits FetchResult.splits option.splits)

lemma proxyHandlerStats_hits_successful:
  "cacheHits stats \<le> successfulRequests stats \<Longrightarrow>
   cacheHits (snd (proxyHandlerStats env req stats))
     \<le> successfulRequests (snd (proxyHandlerStats env req stats))"
  by (simp add: proxyHandlerStats_def applyCalls_hits_successful proxyHandler_calls_consistent)

text \<open>
  Claim C2. Every run of the wildcard handler calls \<^verbatim>\<open>updateProxyStats\<close> exactly
  once, so that the total of requests grows by one. The call passes
  \<open>success = false\<close> when the path is empty, when the validation of the URL fails, when
  the origin answers with a status that is neither 304 nor 2xx, and when an exception is
  caught; \<open>success = true\<close> and \<open>fromCache = true\<close> when the origin answers 304;
  \<open>success = true\<close> and \<open>fromCache = false\<close> when the origin answers 2xx and the
  image response is returned.
\<close>

theorem proxyHandler_updates_stats_once:
  "\<exists>c. snd (proxyHandler env req) = [c]
     \<and> callResponseTime c = elapsedAtStats env
     \<and> totalRequests (snd (proxyHandlerStats env req stats)) = totalRequests stats + 1
     \<and> (requestPath req = [] \<longrightarrow> \<not> callSuccess c \<and> \<not> callFromCache c)
     \<and> (requestPath req \<noteq> []
          \<and> \<not> valid (validateImageUrl (urlParser env) (originalUrlOf req))
          \<longrightarrow> \<not> callSuccess c \<and> \<not> callFromCache c)
     \<and> ((\<exists>err. fst (proxyTryBlock env req) = Inl err)
          \<longrightarrow> \<not> callSuccess c \<and> \<not> callFromCache c)
     \<and> (\<forall>response.
           requestPath req \<noteq> []
           \<and> valid (validateImageUrl (urlParser env) (originalUrlOf req))
           \<and> fetchOrigin env (originalUrlOf req) (fetchHeadersOf req) = FetchResolves response
           \<longrightarrow> (originStatus response = 304 \<longrightarrow> callSuccess c \<and> callFromCache c)
             \<and> (originStatus response \<noteq> 304 \<and> \<not> responseOk (originStatus response)
                  \<longrightarrow> \<not> callSuccess c \<and> \<not> callFromCache c)
             \<and> (responseOk (originStatus response)
                  \<and> (\<exists>r. fst (proxyTryBlock env req) = Inr r)
                  \<longrightarrow> callSuccess c \<and> \<not> callFromCache c))"
proof -
  have one: "\<exists>c. snd (proxyHandler env req) = [c]"
  proof (cases "fst (proxyTryBlock env req)")
    case (Inl err)
    then show ?thesis
      by (simp add: proxyHandler_calls proxyTryBlock_throw_no_call)
  next
    case (Inr r)
    then show ?thesis
      using proxyTryBlock_return_one_call [OF Inr] by (simp add: proxyHandler_calls)
  qed
  then obtain c where c: "snd (proxyHandler env req) = [c]" by blast
  have time: "callResponseTime c = elapsedAtStats env"
    using c
    by (auto simp add: proxyHandler_calls proxyTryBlock_def Let_def statsCall_def
        split: sum.splits if_splits FetchResult.splits option.splits)
  have tot: "totalRequests (snd (proxyHandlerStats env req stats)) = totalRequests stats + 1"
    by (simp add: proxyHandlerStats_def c applyCalls_def applyCall_def updateProxyStats_total)
  have empty: "requestPath req = [] \<longrightarrow> \<not> callSuccess c \<and> \<not> callFromCache c"
    using c proxyTryBlock_empty_path [of req env]
    by (auto simp add: proxyHandler_calls statsCall_def)
  have invalid: "requestPath req \<noteq> []
          \<and> \<not> valid (validateImageUrl (urlParser env) (originalUrlOf req))
          \<longrightarrow> \<not> callSuccess c \<and> \<not> callFromCache c"
    using c proxyTryBlock_invalid [of req env]
    by (auto simp add: proxyHandler_calls statsCall_def)
  have thrown: "(\<exists>err. fst (proxyTryBlock env req) = Inl err)
          \<longrightarrow> \<not> callSuccess c \<and> \<not> callFromCache c"
    using c by (auto simp add: proxyHandler_calls proxyTryBlock_throw_no_call statsCall_def)
  have fetched: "\<forall>response.
           requestPath req \<noteq> []
           \<and> valid (validateImageUrl (urlParser env) (originalUrlOf req))
           \<and> fetchOrigin env (originalUrlOf req) (fetchHeadersOf req) = FetchResolves response
           \<longrightarrow> (originStatus response = 304 \<longrightarrow> callSuccess c \<and> callFromCache c)
             \<and> (originStatus response \<noteq> 304 \<and> \<not> responseOk (originStatus response)
                  \<longrightarrow> \<not> callSuccess c \<and> \<not> callFromCache c)
             \<and> (responseOk (originStatus response)
                  \<and> (\<exists>r. fst (proxyTryBlock env req) = Inr r)
                  \<longrightarrow> callSuccess c \<and> \<not> callFromCache c)"
  proof (intro allI impI)
    fix response
    assume a: "requestPath req \<noteq> []
           \<and> valid (validateImageUrl (urlParser env) (originalUrlOf req))
           \<and> fetchOrigin env (originalUrlOf req) (fetchHeadersOf req) = FetchResolves response"
    then have b: "proxyTryBlock env req =
       (if originStatus response = 304
      then (Inr \<lparr> httpStatus = 304,
                  httpHeaders =
                    [(''Cache-Control'', ''public, max-age=31536000, immutable''),
                     (''X-Proxy-Source'', ''infinity-wallpaper-proxy''),
                     (''X-Cache-Status'', ''not-modified'')],
                  httpBody = NoBody \<rparr>,
            [statsCall env True True])
      else if \<not> responseOk (originStatus response)
      then (Inr (jsonResponse
                  [(''error'', JString ''Image not found''),
                   (''status'', JNumber (int (originStatus response))),
                   (''originalUrl'', JString (originalUrlOf req))]
                  (if 400 \<le> originStatus response \<and> originStatus response < 600
                   then originStatus response else 404)),
            [statsCall env False False])
      else
        (case originBody response of
           None \<Rightarrow> (Inl (TypeError ''Failed to read the response body''), [])
         | Some imageBuffer \<Rightarrow>
             if \<not> list_all (\<lambda>h. headerValueOk env (snd h))
                    (imageHeaders env (originalUrlOf req) response)
             then (Inl (TypeError ''Invalid header value''), [])
             else (Inr \<lparr> httpStatus = 200,
                         httpHeaders = imageHeaders env (originalUrlOf req) response,
                         httpBody = BytesBody imageBuffer \<rparr>,
                   [statsCall env True False])))"
      by (intro proxyTryBlock_fetched) blast+
    show "(originStatus response = 304 \<longrightarrow> callSuccess c \<and> callFromCache c)
             \<and> (originStatus response \<noteq> 304 \<and> \<not> responseOk (originStatus response)
                  \<longrightarrow> \<not> callSuccess c \<and> \<not> callFromCache c)
             \<and> (responseOk (originStatus response)
                  \<and> (\<exists>r. fst (proxyTryBlock env req) = Inr r)
                  \<longrightarrow> callSuccess c \<and> \<not> callFromCache c)"
      using c unfolding proxyHandler_calls b
      by (auto simp add: statsCall_def responseOk_def split: option.splits if_splits)
  qed
  show ?thesis
    using c time tot empty invalid thrown fetched by blast
qed

text \<open>
  Evaluations of the handler's steps on the sample origin.
\<close>

lemma sample_empty: "requestPath (sampleRequest [] None) = []"
  by code_simp

lemma sample_txt:
  "requestPath (sampleRequest ''bigLink/x.txt'' None) \<noteq> []
   \<and> \<not> valid (validateImageUrl (urlParser sampleEnv)
            (originalUrlOf (sampleRequest ''bigLink/x.txt'' None)))"
  by code_simp

lemma sample_valid:
  "requestPath (sampleRequest ''bigLink/17021.jpg'' inm) = ''bigLink/17021.jpg''
   \<and> valid (validateImageUrl (urlParser sampleEnv)
        (originalUrlOf (sampleRequest ''bigLink/17021.jpg'' inm)))"
proof -
  have "requestPath (sampleRequest ''bigLink/17021.jpg'' inm) = ''bigLink/17021.jpg''"
    by (simp add: requestPath_def sampleRequest_def startsWith_def)
  moreover have "valid (validateImageUrl newURL (buildOriginalUrl ''bigLink/17021.jpg''))"
    by code_simp
  ultimately show ?thesis
    by (simp add: originalUrlOf_def sampleEnv_def)
qed

lemma sample_304:
  "fetchOrigin sampleEnv (originalUrlOf (sampleRequest ''bigLink/17021.jpg'' (Some ''abc'')))
      (fetchHeadersOf (sampleRequest ''bigLink/17021.jpg'' (Some ''abc'')))
     = FetchResolves sampleNotModified"
proof -
  have "map_of (fetchHeadersOf (sampleRequest ''bigLink/17021.jpg'' (Some ''abc'')))
          ''If-None-Match'' = Some ''abc''"
    by code_simp
  then show ?thesis
    using sample_valid [of "Some ''abc''"]
    by (simp add: originalUrlOf_def sampleEnv_def sampleOrigin_def)
qed

lemma sample_200:
  "fetchOrigin sampleEnv (originalUrlOf (sampleRequest ''bigLink/17021.jpg'' None))
      (fetchHeadersOf (sampleRequest ''bigLink/17021.jpg'' None))
     = FetchResolves sampleImage"
proof -
  have "map_of (fetchHeadersOf (sampleRequest ''bigLink/17021.jpg'' None))
          ''If-None-Match'' = None"
    by code_simp
  then show ?thesis
    using sample_valid [of None]
    by (simp add: originalUrlOf_def sampleEnv_def sampleOrigin_def)
qed

lemma sample_200_returns:
  "\<exists>r. fst (proxyTryBlock sampleEnv (sampleRequest ''bigLink/17021.jpg'' None)) = Inr r"
proof -
  have "list_all (\<lambda>h. headerValueOk sampleEnv (snd h)) hdrs" for hdrs
    by (simp add: sampleEnv_def list_all_iff)
  then show ?thesis
    using sample_valid [of None] sample_200
    by (simp add: proxyTryBlock_fetched sampleImage_def responseOk_def)
qed

lemma sample_statuses:
  "originStatus sampleNotModified = 304 \<and> originStatus sampleImage = 200
   \<and> responseOk (originStatus sampleImage)"
  by (simp add: sampleNotModified_def sampleImage_def responseOk_def)

text \<open>
  Claim C2 on six requests to the sample origin: an empty path, a text file, the image
  with and without its entity tag, an origin that cannot be reached and a missing image.
\<close>

theorem proxyHandler_updates_stats_once_witness:
  "requestPath (sampleRequest [] None) = []
   \<and> snd (proxyHandler sampleEnv (sampleRequest [] None)) = [statsCall sampleEnv False False]
   \<and> \<not> valid (validateImageUrl (urlParser sampleEnv)
            (originalUrlOf (sampleRequest ''bigLink/x.txt'' None)))
   \<and> snd (proxyHandler sampleEnv (sampleRequest ''bigLink/x.txt'' None))
       = [statsCall sampleEnv False False]
   \<and> fetchOrigin sampleEnv (originalUrlOf (sampleRequest ''bigLink/17021.jpg'' (Some ''abc'')))
        (fetchHeadersOf (sampleRequest ''bigLink/17021.jpg'' (Some ''abc'')))
       = FetchResolves sampleNotModified
   \<and> (\<exists>c. snd (proxyHandler sampleEnv (sampleRequest ''bigLink/17021.jpg'' (Some ''abc''))) = [c]
         \<and> callSuccess c \<and> callFromCache c)
   \<and> fetchOrigin sampleEnv (originalUrlOf (sampleRequest ''bigLink/17021.jpg'' None))
        (fetchHeadersOf (sampleRequest ''bigLink/17021.jpg'' None))
       = FetchResolves sampleImage
   \<and> (\<exists>c. snd (proxyHandler sampleEnv (sampleRequest ''bigLink/17021.jpg'' None)) = [c]
         \<and> callSuccess c \<and> \<not> callFromCache c)
   \<and> snd (proxyHandler sampleEnv (sampleRequest ''bigLink/down.jpg'' None))
       = [statsCall sampleEnv False False]
   \<and> snd (proxyHandler sampleEnv (sampleRequest ''bigLink/404.jpg'' None))
       = [statsCall sampleEnv False False]"
proof -
  have e: "snd (proxyHandler sampleEnv (sampleRequest [] None)) = [statsCall sampleEnv False False]"
    by code_simp
  have t: "snd (proxyHandler sampleEnv (sampleRequest ''bigLink/x.txt'' None))
       = [statsCall sampleEnv False False]"
    by code_simp
  have d: "snd (proxyHandler sampleEnv (sampleRequest ''bigLink/down.jpg'' None))
       = [statsCall sampleEnv False False]"
    by code_simp
  have n: "snd (proxyHandler sampleEnv (sampleRequest ''bigLink/404.jpg'' None))
       = [statsCall sampleEnv False False]"
    by code_simp
  have c304: "\<exists>c. snd (proxyHandler sampleEnv (sampleRequest ''bigLink/17021.jpg'' (Some ''abc''))) = [c]
         \<and> callSuccess c \<and> callFromCache c"
    using proxyHandler_updates_stats_once
        [of sampleEnv "sampleRequest ''bigLink/17021.jpg'' (Some ''abc'')"]
      sample_valid [of "Some ''abc''"] sample_304 sample_statuses
    by (metis list.distinct(1))
  have c200: "\<exists>c. snd (proxyHandler sampleEnv (sampleRequest ''bigLink/17021.jpg'' None)) = [c]
         \<and> callSuccess c \<and> \<not> callFromCache c"
    using proxyHandler_updates_stats_once
        [of sampleEnv "sampleRequest ''bigLink/17021.jpg'' None"]
      sample_valid [of None] sample_200 sample_200_returns sample_statuses
    by (metis list.distinct(1))
  show ?thesis
    using sample_empty sample_txt e t d n c304 c200 sample_304 sample_200 by blast
qed

end
